theory Spec2Isabelle
  imports Complex_Main
begin

section \<open>Data model\<close>

text \<open>
  Documents are identified by their \<open>_id\<close>, an ObjectId, modelled as a natural number.
  A JavaScript \<open>Number\<close> that the route validators restrict to integers (quantities)
  is an \<open>int\<close>; prices and amounts are double-precision numbers, with the rounding of
  every operation written out. Dates are milliseconds since the epoch. The
  \<open>createdAt\<close>/\<open>updatedAt\<close> stamps that the schema option \<open>timestamps\<close> adds are
  left out.
\<close>

type_synonym oid = nat

subsection \<open>Numbers\<close>

text \<open>
  A JavaScript \<open>Number\<close> is an IEEE 754 binary64 value: a finite number, an infinity
  or NaN. A finite value is held as the rational it denotes (the two zeros are one value,
  as they are for \<open>===\<close>). The result of an operation is the exact result rounded to
  the nearest value with a 53-bit significand, ties to the even significand; below
  \<open>2^-1022\<close> the spacing stays \<open>2^-1074\<close>, and a rounded magnitude of \<open>2^1024\<close>
  or more is an infinity.
\<close>

datatype double = Finite rat | PosInf | NegInf | NaN

definition pow2 :: "int \<Rightarrow> rat" where
  "pow2 k = (if 0 \<le> k then 2 ^ nat k else 1 / 2 ^ nat (- k))"

text \<open>The number of binary digits of a positive integer.\<close>

function bit_length :: "int \<Rightarrow> int" where
  "bit_length n = (if n \<le> 0 then 0 else 1 + bit_length (n div 2))"
  by pat_completeness auto
termination
  by (relation "measure nat") auto

declare bit_length.simps [simp del]

text \<open>
  For \<open>x > 0\<close>, the exponent \<open>e\<close> with \<open>2^e \<le> x < 2^(e+1)\<close>: from the digits of
  the integer part when \<open>x \<ge> 1\<close>, and otherwise from those of the integer part of
  \<open>1 / x\<close>, one higher when \<open>x\<close> is itself a power of two.
\<close>

definition ilog2 :: "rat \<Rightarrow> int" where
  "ilog2 x =
     (if x \<ge> 1 then bit_length \<lfloor>x\<rfloor> - 1
      else (let d = - bit_length \<lfloor>1 / x\<rfloor>
            in if pow2 (d + 1) \<le> x then d + 1 else d))"

text \<open>The nearest integer, a tie going to the even one.\<close>

definition round_half_even :: "rat \<Rightarrow> int" where
  "round_half_even m =
     (let f = \<lfloor>m\<rfloor>; r = m - of_int f
      in if r < 1 / 2 then f
         else if r > 1 / 2 then f + 1
         else if even f then f else f + 1)"

definition round_double :: "rat \<Rightarrow> double" where
  "round_double x =
     (if x = 0 then Finite 0
      else (let a = \<bar>x\<bar>;
                e = max (ilog2 a) (- 1022);
                ulp = pow2 (e - 52);
                r = of_int (round_half_even (a / ulp)) * ulp
            in if r \<ge> pow2 1024 then (if x > 0 then PosInf else NegInf)
               else Finite (if x > 0 then r else - r)))"

text \<open>\<open>a + b\<close> and \<open>a * b\<close> on numbers.\<close>

fun dadd :: "double \<Rightarrow> double \<Rightarrow> double" where
  "dadd NaN b = NaN"
| "dadd a NaN = NaN"
| "dadd PosInf NegInf = NaN"
| "dadd NegInf PosInf = NaN"
| "dadd PosInf b = PosInf"
| "dadd a PosInf = PosInf"
| "dadd NegInf b = NegInf"
| "dadd a NegInf = NegInf"
| "dadd (Finite a) (Finite b) = round_double (a + b)"

definition inf_of_sign :: "bool \<Rightarrow> double" where
  "inf_of_sign positive = (if positive then PosInf else NegInf)"

fun dmul :: "double \<Rightarrow> double \<Rightarrow> double" where
  "dmul NaN b = NaN"
| "dmul a NaN = NaN"
| "dmul PosInf PosInf = PosInf"
| "dmul PosInf NegInf = NegInf"
| "dmul NegInf PosInf = NegInf"
| "dmul NegInf NegInf = PosInf"
| "dmul PosInf (Finite b) = (if b = 0 then NaN else inf_of_sign (b > 0))"
| "dmul NegInf (Finite b) = (if b = 0 then NaN else inf_of_sign (b < 0))"
| "dmul (Finite a) PosInf = (if a = 0 then NaN else inf_of_sign (a > 0))"
| "dmul (Finite a) NegInf = (if a = 0 then NaN else inf_of_sign (a < 0))"
| "dmul (Finite a) (Finite b) = round_double (a * b)"

text \<open>An integer quantity as the number it is in the program.\<close>

definition double_of_int :: "int \<Rightarrow> double" where
  "double_of_int n = round_double (of_int n)"

subsection \<open>Product (models/Product.js, in src/unnamed/part_006)\<close>

text \<open>
  The Product collection is a map from \<open>_id\<close> to the document's other fields.
  \<open>expiration_date\<close> is stored as a \<open>YYYY-MM-DD\<close> string that the schema validator
  requires to parse as a date; the record holds the parsed instant.
\<close>

record product =
  p_name :: string
  p_price :: double
  p_quantity :: int
  p_is_active :: bool
  p_expiration_date :: int

text \<open>The virtual \<open>is_expired\<close> of a complete product document: \<open>new Date() > expirationDate\<close>.\<close>

definition p_is_expired :: "int \<Rightarrow> product \<Rightarrow> bool" where
  "p_is_expired now p = (now > p_expiration_date p)"

text \<open>
  A product document as \<open>populate(path, select)\<close> delivers it: only the selected fields
  are present, every other field reads as \<open>undefined\<close> (\<open>None\<close>); schema defaults are
  not applied to fields left out of an inclusive projection.
\<close>

datatype pfield = F_name | F_price | F_quantity | F_is_active | F_expiration_date

record pdoc =
  d_name :: "string option"
  d_price :: "double option"
  d_quantity :: "int option"
  d_is_active :: "bool option"
  d_expiration_date :: "int option"

definition select_fields :: "pfield list \<Rightarrow> product \<Rightarrow> pdoc" where
  "select_fields fs p =
     \<lparr> d_name = (if F_name \<in> set fs then Some (p_name p) else None),
       d_price = (if F_price \<in> set fs then Some (p_price p) else None),
       d_quantity = (if F_quantity \<in> set fs then Some (p_quantity p) else None),
       d_is_active = (if F_is_active \<in> set fs then Some (p_is_active p) else None),
       d_expiration_date =
         (if F_expiration_date \<in> set fs then Some (p_expiration_date p) else None) \<rparr>"

text \<open>
  The virtual \<open>is_expired\<close> on a projected document:
  \<open>if (!this.expiration_date) return false; ... return new Date() > expirationDate\<close>.
\<close>

definition d_is_expired :: "int \<Rightarrow> pdoc \<Rightarrow> bool" where
  "d_is_expired now d = (case d_expiration_date d of None \<Rightarrow> False | Some e \<Rightarrow> now > e)"

text \<open>Truthiness of a possibly undefined boolean field (\<open>product.is_active\<close>).\<close>

definition truthy :: "bool option \<Rightarrow> bool" where
  "truthy b = (case b of None \<Rightarrow> False | Some v \<Rightarrow> v)"

text \<open>
  \<open>a <= b\<close> and \<open>a > b\<close> where \<open>b\<close> may be \<open>undefined\<close>: \<open>undefined\<close>
  converts to NaN and every comparison with NaN is false.
\<close>

definition js_le :: "int \<Rightarrow> int option \<Rightarrow> bool" where
  "js_le a b = (case b of None \<Rightarrow> False | Some v \<Rightarrow> a \<le> v)"

definition js_gt :: "int \<Rightarrow> int option \<Rightarrow> bool" where
  "js_gt a b = (case b of None \<Rightarrow> False | Some v \<Rightarrow> a > v)"

subsection \<open>Cart (models/Cart.js, in src/unnamed/part_005)\<close>

text \<open>
  The path \<open>items.product_id\<close> is declared an ObjectId with \<open>ref: "Product"\<close>. In a
  stored cart, and in a line pushed by \<open>addItem\<close>, it is the id (\<open>Ref\<close>). After
  \<open>populate("items.product_id", ...)\<close> it is the referenced product document, or
  \<open>null\<close> when no such product exists any more (\<open>Populated\<close>, which carries the id
  that was stored: it is the \<open>_id\<close> of the document, and what a save writes back).
  The controllers rely on this: \<open>getUserCart\<close> and \<open>approveCart\<close> read
  \<open>product.is_active\<close> and \<open>product.quantity\<close> from \<open>item.product_id\<close> and test
  it against \<open>null\<close>.
\<close>

datatype pref = Ref oid | Populated oid "pdoc option"

fun ref_id :: "pref \<Rightarrow> oid" where
  "ref_id (Ref i) = i"
| "ref_id (Populated i d) = i"

datatype cart_status = Active | Pending | Approved | Rejected | Cancelled

record cart_item =
  product_id :: pref
  quantity :: int
  price_at_time :: double
  added_at :: int

record cart =
  c_id :: oid
  user_id :: oid
  items :: "cart_item list"
  status :: cart_status
  total_amount :: double
  total_items :: int
  c_notes :: "string option"
  admin_notes :: "string option"
  approved_by :: "oid option"
  approved_at :: "int option"
  rejected_by :: "oid option"
  rejected_at :: "int option"
  submitted_at :: "int option"

text \<open>The database: the Cart collection in insertion order and the Product collection by id.\<close>

record db =
  carts :: "cart list"
  products :: "oid \<Rightarrow> product option"

text \<open>What a request brings besides its parameters: the clock and the id of a new document.\<close>

record env =
  now :: int
  new_id :: oid

text \<open>
  \<open>x.toString()\<close> on a product reference. An ObjectId prints its id; a populated
  reference is a document, whose \<open>toString()\<close> prints the document's fields (the
  \<open>console.log\<close> helper), never the bare id; on \<open>null\<close> the call raises a TypeError.
  Where the controllers compare a populated reference by id they go through \<open>_id\<close>
  first: \<open>cart.user_id._id.toString() !== userId\<close> in \<open>cancelCart\<close>.
\<close>

datatype js_error = TypeError

datatype js_string = IdString oid | InspectString pdoc

fun ref_toString :: "pref \<Rightarrow> js_error + js_string" where
  "ref_toString (Ref i) = Inr (IdString i)"
| "ref_toString (Populated i None) = Inl TypeError"
| "ref_toString (Populated i (Some d)) = Inr (InspectString d)"

text \<open>
  \<open>this.items.findIndex((item) => item.product_id.toString() === productId.toString())\<close>,
  counting from \<open>k\<close>; \<open>None\<close> is the result \<open>-1\<close>. The callback runs on each line
  up to the first match, so a TypeError in it ends the search.
\<close>

fun findIndex_from :: "nat \<Rightarrow> cart_item list \<Rightarrow> oid \<Rightarrow> js_error + nat option" where
  "findIndex_from k [] productId = Inr None"
| "findIndex_from k (item # rest) productId =
     (case ref_toString (product_id item) of
        Inl e \<Rightarrow> Inl e
      | Inr s \<Rightarrow> if s = IdString productId then Inr (Some k)
                 else findIndex_from (Suc k) rest productId)"

definition findIndex :: "cart_item list \<Rightarrow> oid \<Rightarrow> js_error + nat option" where
  "findIndex its productId = findIndex_from 0 its productId"

text \<open>
  \<open>this.items.filter((item) => item.product_id.toString() !== productId.toString())\<close>.
\<close>

fun filter_other :: "cart_item list \<Rightarrow> oid \<Rightarrow> js_error + cart_item list" where
  "filter_other [] productId = Inr []"
| "filter_other (item # rest) productId =
     (case ref_toString (product_id item) of
        Inl e \<Rightarrow> Inl e
      | Inr s \<Rightarrow>
          (case filter_other rest productId of
             Inl e \<Rightarrow> Inl e
           | Inr keep \<Rightarrow> Inr (if s \<noteq> IdString productId then item # keep else keep)))"

text \<open>
  The pre-save hook that recomputes the totals (\<open>cartSchema.pre("save")\<close>). Both
  \<open>reduce\<close> calls run left to right from 0. \<open>total_amount\<close> is computed in doubles:
  each product \<open>item.price_at_time * item.quantity\<close> and each partial sum is rounded.
  \<open>total_items\<close> adds quantities, which are integers of at most 1000 a line (the
  route validators) in a document of at most 16 MB; such sums stay far below \<open>2^53\<close>,
  where doubles add integers exactly (\<open>double_items\<close> below, and the section on
  double-precision arithmetic), and are computed as integers.
\<close>

definition pre_save :: "cart \<Rightarrow> cart" where
  "pre_save c =
     (if length (items c) > 0
      then c \<lparr> total_items := foldl (\<lambda>total item. total + quantity item) 0 (items c),
               total_amount :=
                 foldl (\<lambda>total item.
                          dadd total (dmul (price_at_time item) (double_of_int (quantity item))))
                   (Finite 0) (items c) \<rparr>
      else c \<lparr> total_items := 0, total_amount := Finite 0 \<rparr>)"

text \<open>A saved document stores the id of every reference, populated or not.\<close>

definition depopulate :: "cart \<Rightarrow> cart" where
  "depopulate c = c \<lparr> items := map (\<lambda>item. item \<lparr> product_id := Ref (ref_id (product_id item)) \<rparr>) (items c) \<rparr>"

definition upsert :: "cart \<Rightarrow> cart list \<Rightarrow> cart list" where
  "upsert c cs =
     (if c_id c \<in> set (map c_id cs)
      then map (\<lambda>x. if c_id x = c_id c then c else x) cs
      else cs @ [c])"

text \<open>
  \<open>this.save()\<close>: run the hook, write the document. The result is the new database
  and the in-memory document, which keeps its populated references.
\<close>

definition save :: "db \<Rightarrow> cart \<Rightarrow> db \<times> cart" where
  "save s c = (let c' = pre_save c in (s \<lparr> carts := upsert (depopulate c') (carts s) \<rparr>, c'))"

text \<open>\<open>new Cart({ user_id: userId })\<close> with the schema defaults.\<close>

definition new_cart :: "env \<Rightarrow> oid \<Rightarrow> cart" where
  "new_cart e userId =
     \<lparr> c_id = new_id e, user_id = userId, items = [], status = Active,
       total_amount = Finite 0, total_items = 0, c_notes = None, admin_notes = None,
       approved_by = None, approved_at = None, rejected_by = None, rejected_at = None,
       submitted_at = None \<rparr>"

text \<open>Instance methods of the Cart model, each ending in \<open>this.save()\<close>.\<close>

definition addItem :: "env \<Rightarrow> db \<Rightarrow> cart \<Rightarrow> oid \<Rightarrow> int \<Rightarrow> double \<Rightarrow> js_error + db \<times> cart" where
  "addItem e s c productId qty priceAtTime =
     (case findIndex (items c) productId of
        Inl err \<Rightarrow> Inl err
      | Inr (Some i) \<Rightarrow>
          Inr (save s (c \<lparr> items := (items c)[i := (items c ! i) \<lparr> quantity := quantity (items c ! i) + qty \<rparr>] \<rparr>))
      | Inr None \<Rightarrow>
          Inr (save s (c \<lparr> items := items c @
                 [\<lparr> product_id = Ref productId, quantity = qty,
                    price_at_time = priceAtTime, added_at = now e \<rparr>] \<rparr>)))"

definition removeItem :: "db \<Rightarrow> cart \<Rightarrow> oid \<Rightarrow> js_error + db \<times> cart" where
  "removeItem s c productId =
     (case filter_other (items c) productId of
        Inl err \<Rightarrow> Inl err
      | Inr keep \<Rightarrow> Inr (save s (c \<lparr> items := keep \<rparr>)))"

text \<open>\<open>this.items.splice(itemIndex, 1)\<close> removes the line at the index.\<close>

definition splice1 :: "nat \<Rightarrow> 'a list \<Rightarrow> 'a list" where
  "splice1 i xs = take i xs @ drop (Suc i) xs"

definition updateItemQuantity :: "db \<Rightarrow> cart \<Rightarrow> oid \<Rightarrow> int \<Rightarrow> js_error + db \<times> cart" where
  "updateItemQuantity s c productId newQuantity =
     (case findIndex (items c) productId of
        Inl err \<Rightarrow> Inl err
      | Inr (Some i) \<Rightarrow>
          (if newQuantity \<le> 0
           then Inr (save s (c \<lparr> items := splice1 i (items c) \<rparr>))
           else Inr (save s (c \<lparr> items := (items c)[i := (items c ! i) \<lparr> quantity := newQuantity \<rparr>] \<rparr>)))
      | Inr None \<Rightarrow> Inr (save s c))"

definition clearCart_m :: "db \<Rightarrow> cart \<Rightarrow> db \<times> cart" where
  "clearCart_m s c = save s (c \<lparr> items := [] \<rparr>)"

definition submitForApproval :: "env \<Rightarrow> db \<Rightarrow> cart \<Rightarrow> string \<Rightarrow> db \<times> cart" where
  "submitForApproval e s c nts =
     save s (c \<lparr> status := Pending, c_notes := Some nts, submitted_at := Some (now e) \<rparr>)"

definition approveCart_m :: "env \<Rightarrow> db \<Rightarrow> cart \<Rightarrow> oid \<Rightarrow> string \<Rightarrow> db \<times> cart" where
  "approveCart_m e s c adminId adminNotes =
     save s (c \<lparr> status := Approved, admin_notes := Some adminNotes,
                 approved_by := Some adminId, approved_at := Some (now e) \<rparr>)"

definition rejectCart_m :: "env \<Rightarrow> db \<Rightarrow> cart \<Rightarrow> oid \<Rightarrow> string \<Rightarrow> db \<times> cart" where
  "rejectCart_m e s c adminId adminNotes =
     save s (c \<lparr> status := Rejected, admin_notes := Some adminNotes,
                 rejected_by := Some adminId, rejected_at := Some (now e) \<rparr>)"

definition cancelCart_m :: "db \<Rightarrow> cart \<Rightarrow> db \<times> cart" where
  "cancelCart_m s c = save s (c \<lparr> status := Cancelled \<rparr>)"

definition canBeModified :: "cart \<Rightarrow> bool" where
  "canBeModified c = (status c = Active)"

definition canBeProcessed :: "cart \<Rightarrow> bool" where
  "canBeProcessed c = (status c = Pending)"


section \<open>Cart controllers (controllers/cartController.js, in controllers/productController.js from line 1115)\<close>

text \<open>
  A response is the HTTP status, the \<open>success\<close> flag, the message (\<open>None\<close> for
  \<open>null\<close>) and the cart sent as \<open>data\<close>. Messages are named rather than spelled
  out; the numbers that the source interpolates are kept as arguments.
\<close>

datatype msg =
    ProductNotFound | ProductNotActive | ProductExpired
  | OnlyInStock int | CannotAddOnlyMore int int | ItemAdded
  | CartNotFound | CannotBeModified | ItemRemoved | ItemUpdated | CartCleared
  | CannotSubmitEmpty | CannotBeSubmitted | NoLongerAvailable | InsufficientStock int
  | CartSubmitted | CartUpdatedNotice
  | CannotBeProcessed | CartApproved | CartRejected
  | OnlyOwnCart | AlreadyCancelled | CannotCancelApproved | CartCancelled
  | Failed

record response =
  code :: nat
  success :: bool
  message :: "msg option"
  data :: "cart option"

definition fail :: "nat \<Rightarrow> msg \<Rightarrow> response" where
  "fail c m = \<lparr> code = c, success = False, message = Some m, data = None \<rparr>"

definition ok :: "msg option \<Rightarrow> cart option \<Rightarrow> response" where
  "ok m d = \<lparr> code = 200, success = True, message = m, data = d \<rparr>"

text \<open>The \<open>catch\<close> block of every controller: status 500, nothing written.\<close>

definition caught :: "db \<Rightarrow> response \<times> db" where
  "caught s = (fail 500 Failed, s)"

definition populate_item :: "pfield list \<Rightarrow> (oid \<Rightarrow> product option) \<Rightarrow> cart_item \<Rightarrow> cart_item" where
  "populate_item fs prods item =
     item \<lparr> product_id :=
       Populated (ref_id (product_id item))
         (map_option (select_fields fs) (prods (ref_id (product_id item)))) \<rparr>"

definition populate :: "pfield list \<Rightarrow> (oid \<Rightarrow> product option) \<Rightarrow> cart \<Rightarrow> cart" where
  "populate fs prods c = c \<lparr> items := map (populate_item fs prods) (items c) \<rparr>"

text \<open>
  \<open>Cart.getUserActiveCart\<close>: \<open>findOne({ user_id, status: "active" })\<close> populated with
  \<open>"name price quantity is_active expiration_date"\<close>.
\<close>

definition active_cart_fields :: "pfield list" where
  "active_cart_fields = [F_name, F_price, F_quantity, F_is_active, F_expiration_date]"

definition getUserActiveCart :: "db \<Rightarrow> oid \<Rightarrow> cart option" where
  "getUserActiveCart s userId =
     map_option (populate active_cart_fields (products s))
       (find (\<lambda>c. user_id c = userId \<and> status c = Active) (carts s))"

definition findById :: "db \<Rightarrow> oid \<Rightarrow> cart option" where
  "findById s cartId = find (\<lambda>c. c_id c = cartId) (carts s)"

text \<open>
  \<open>Product.findById(x)\<close> where \<open>x\<close> is a line's \<open>product_id\<close>: a document is cast to
  its \<open>_id\<close>, \<open>null\<close> finds nothing.
\<close>

fun product_of_ref :: "db \<Rightarrow> pref \<Rightarrow> product option" where
  "product_of_ref s (Ref i) = products s i"
| "product_of_ref s (Populated i None) = None"
| "product_of_ref s (Populated i (Some d)) = products s i"

subsection \<open>getUserCart\<close>

text \<open>
  The loop \<open>for (const item of cart.items)\<close> with its two variables \<open>validItems\<close> and
  \<open>hasChanges\<close>. With \<open>product.quantity\<close> undefined both comparisons are false and the
  line is dropped.
\<close>

fun revalidate :: "int \<Rightarrow> cart_item list \<Rightarrow> cart_item list \<Rightarrow> bool \<Rightarrow> cart_item list \<times> bool" where
  "revalidate t [] validItems hasChanges = (validItems, hasChanges)"
| "revalidate t (item # rest) validItems hasChanges =
     (case product_id item of
        Populated i (Some product) \<Rightarrow>
          if truthy (d_is_active product) \<and> \<not> d_is_expired t product
          then (if js_le (quantity item) (d_quantity product)
                then revalidate t rest (validItems @ [item]) hasChanges
                else (case d_quantity product of
                        Some stock \<Rightarrow>
                          if stock > 0
                          then revalidate t rest (validItems @ [item \<lparr> quantity := stock \<rparr>]) True
                          else revalidate t rest validItems True
                      | None \<Rightarrow> revalidate t rest validItems True))
          else revalidate t rest validItems True
      | _ \<Rightarrow> revalidate t rest validItems True)"

definition getUserCart :: "env \<Rightarrow> db \<Rightarrow> oid \<Rightarrow> response \<times> db" where
  "getUserCart e s userId =
     (let (s1, found) =
            (case getUserActiveCart s userId of
               Some c \<Rightarrow> (s, Some c)
             | None \<Rightarrow> (let s' = fst (save s (new_cart e userId))
                        in (s', getUserActiveCart s' userId)))
      in case found of
           None \<Rightarrow> caught s1
         | Some cart \<Rightarrow>
             (let (validItems, hasChanges) = revalidate (now e) (items cart) [] False
              in if hasChanges
                 then (let (s2, cart') = save s1 (cart \<lparr> items := validItems \<rparr>)
                       in (ok (Some CartUpdatedNotice) (Some cart'), s2))
                 else (ok None (Some cart), s1)))"

subsection \<open>addToCart\<close>

text \<open>
  \<open>cart.items.find((item) => item.product_id.toString() === product_id.toString())\<close>.
\<close>

fun find_item :: "cart_item list \<Rightarrow> oid \<Rightarrow> js_error + cart_item option" where
  "find_item [] productId = Inr None"
| "find_item (item # rest) productId =
     (case ref_toString (product_id item) of
        Inl e \<Rightarrow> Inl e
      | Inr s \<Rightarrow> if s = IdString productId then Inr (Some item)
                 else find_item rest productId)"

definition addToCart :: "env \<Rightarrow> db \<Rightarrow> oid \<Rightarrow> oid \<Rightarrow> int \<Rightarrow> response \<times> db" where
  "addToCart e s userId productId qty =
     (case products s productId of
        None \<Rightarrow> (fail 404 ProductNotFound, s)
      | Some product \<Rightarrow>
          if \<not> p_is_active product then (fail 400 ProductNotActive, s)
          else if p_is_expired (now e) product then (fail 400 ProductExpired, s)
          else if p_quantity product < qty then (fail 400 (OnlyInStock (p_quantity product)), s)
          else
            (let cart = (case getUserActiveCart s userId of
                           Some c \<Rightarrow> c
                         | None \<Rightarrow> new_cart e userId)
             in case find_item (items cart) productId of
                  Inl err \<Rightarrow> caught s
                | Inr existingItem \<Rightarrow>
                    (let currentQuantityInCart =
                           (case existingItem of Some item \<Rightarrow> quantity item | None \<Rightarrow> 0);
                         totalRequestedQuantity = currentQuantityInCart + qty
                     in if totalRequestedQuantity > p_quantity product
                        then (fail 400
                                (CannotAddOnlyMore qty (p_quantity product - currentQuantityInCart)), s)
                        else (case addItem e s cart productId qty (p_price product) of
                                Inl err \<Rightarrow> caught s
                              | Inr (s', cart') \<Rightarrow>
                                  (ok (Some ItemAdded) (getUserActiveCart s' userId), s')))))"

subsection \<open>updateCartItem, removeFromCart, clearCart\<close>

definition updateCartItem :: "db \<Rightarrow> oid \<Rightarrow> oid \<Rightarrow> int \<Rightarrow> response \<times> db" where
  "updateCartItem s userId productId qty =
     (case getUserActiveCart s userId of
        None \<Rightarrow> (fail 404 CartNotFound, s)
      | Some cart \<Rightarrow>
          if \<not> canBeModified cart then (fail 400 CannotBeModified, s)
          else if qty \<le> 0
          then (case removeItem s cart productId of
                  Inl err \<Rightarrow> caught s
                | Inr (s', cart') \<Rightarrow> (ok (Some ItemRemoved) (getUserActiveCart s' userId), s'))
          else (case products s productId of
                  None \<Rightarrow> (fail 404 ProductNotFound, s)
                | Some product \<Rightarrow>
                    if qty > p_quantity product
                    then (fail 400 (OnlyInStock (p_quantity product)), s)
                    else (case updateItemQuantity s cart productId qty of
                            Inl err \<Rightarrow> caught s
                          | Inr (s', cart') \<Rightarrow>
                              (ok (Some ItemUpdated) (getUserActiveCart s' userId), s'))))"

definition removeFromCart :: "db \<Rightarrow> oid \<Rightarrow> oid \<Rightarrow> response \<times> db" where
  "removeFromCart s userId productId =
     (case getUserActiveCart s userId of
        None \<Rightarrow> (fail 404 CartNotFound, s)
      | Some cart \<Rightarrow>
          if \<not> canBeModified cart then (fail 400 CannotBeModified, s)
          else (case removeItem s cart productId of
                  Inl err \<Rightarrow> caught s
                | Inr (s', cart') \<Rightarrow> (ok (Some ItemRemoved) (getUserActiveCart s' userId), s')))"

definition clearCart :: "db \<Rightarrow> oid \<Rightarrow> response \<times> db" where
  "clearCart s userId =
     (case getUserActiveCart s userId of
        None \<Rightarrow> (fail 404 CartNotFound, s)
      | Some cart \<Rightarrow>
          if \<not> canBeModified cart then (fail 400 CannotBeModified, s)
          else (let (s', cart') = clearCart_m s cart
                in (ok (Some CartCleared) (getUserActiveCart s' userId), s')))"

subsection \<open>submitCart\<close>

text \<open>
  The loop that validates every line against the product as it is now; the result is the
  message of the first line that fails, if any.
\<close>

fun submit_check :: "env \<Rightarrow> db \<Rightarrow> cart_item list \<Rightarrow> msg option" where
  "submit_check e s [] = None"
| "submit_check e s (item # rest) =
     (case product_of_ref s (product_id item) of
        None \<Rightarrow> Some NoLongerAvailable
      | Some product \<Rightarrow>
          if \<not> p_is_active product \<or> p_is_expired (now e) product then Some NoLongerAvailable
          else if quantity item > p_quantity product
          then Some (InsufficientStock (p_quantity product))
          else submit_check e s rest)"

definition submitCart :: "env \<Rightarrow> db \<Rightarrow> oid \<Rightarrow> string \<Rightarrow> response \<times> db" where
  "submitCart e s userId nts =
     (case getUserActiveCart s userId of
        None \<Rightarrow> (fail 404 CartNotFound, s)
      | Some cart \<Rightarrow>
          if length (items cart) = 0 then (fail 400 CannotSubmitEmpty, s)
          else if \<not> canBeModified cart then (fail 400 CannotBeSubmitted, s)
          else (case submit_check e s (items cart) of
                  Some m \<Rightarrow> (fail 400 m, s)
                | None \<Rightarrow>
                    (let (s', cart') = submitForApproval e s cart nts
                     in (ok (Some CartSubmitted) (getUserActiveCart s' userId), s'))))"

subsection \<open>cancelCart, approveCart, rejectCart\<close>

text \<open>
  \<open>cancelCart\<close> populates \<open>user_id\<close> and compares \<open>cart.user_id._id\<close> with the
  caller; the cart record keeps the owner's id.
\<close>

definition cancelCart :: "db \<Rightarrow> oid \<Rightarrow> oid \<Rightarrow> response \<times> db" where
  "cancelCart s userId cartId =
     (case findById s cartId of
        None \<Rightarrow> (fail 404 CartNotFound, s)
      | Some cart \<Rightarrow>
          if user_id cart \<noteq> userId then (fail 403 OnlyOwnCart, s)
          else if status cart = Cancelled then (fail 400 AlreadyCancelled, s)
          else if status cart = Approved then (fail 400 CannotCancelApproved, s)
          else (let (s', cart') = cancelCart_m s cart
                in (ok (Some CartCancelled) (Some cart'), s')))"

text \<open>
  \<open>approveCart\<close> loads the cart with
  \<open>populate("items.product_id", "name price quantity")\<close> and then reads
  \<open>product.is_active\<close>, \<open>product.is_expired\<close> and \<open>product.quantity\<close> from each line.
\<close>

definition approve_fields :: "pfield list" where
  "approve_fields = [F_name, F_price, F_quantity]"

fun approve_check :: "env \<Rightarrow> cart_item list \<Rightarrow> msg option" where
  "approve_check e [] = None"
| "approve_check e (item # rest) =
     (case product_id item of
        Populated i (Some product) \<Rightarrow>
          if \<not> truthy (d_is_active product) \<or> d_is_expired (now e) product
          then Some NoLongerAvailable
          else if js_gt (quantity item) (d_quantity product)
          then Some (InsufficientStock (case d_quantity product of Some q \<Rightarrow> q | None \<Rightarrow> 0))
          else approve_check e rest
      | _ \<Rightarrow> Some NoLongerAvailable)"

definition approveCart :: "env \<Rightarrow> db \<Rightarrow> oid \<Rightarrow> oid \<Rightarrow> string \<Rightarrow> response \<times> db" where
  "approveCart e s adminId cartId adminNotes =
     (case map_option (populate approve_fields (products s)) (findById s cartId) of
        None \<Rightarrow> (fail 404 CartNotFound, s)
      | Some cart \<Rightarrow>
          if \<not> canBeProcessed cart then (fail 400 CannotBeProcessed, s)
          else (case approve_check e (items cart) of
                  Some m \<Rightarrow> (fail 400 m, s)
                | None \<Rightarrow>
                    (let (s', cart') = approveCart_m e s cart adminId adminNotes
                     in (ok (Some CartApproved) (Some cart'), s'))))"

definition reject_fields :: "pfield list" where
  "reject_fields = [F_name, F_price]"

definition rejectCart :: "env \<Rightarrow> db \<Rightarrow> oid \<Rightarrow> oid \<Rightarrow> string \<Rightarrow> response \<times> db" where
  "rejectCart e s adminId cartId adminNotes =
     (case map_option (populate reject_fields (products s)) (findById s cartId) of
        None \<Rightarrow> (fail 404 CartNotFound, s)
      | Some cart \<Rightarrow>
          if \<not> canBeProcessed cart then (fail 400 CannotBeProcessed, s)
          else (let (s', cart') = rejectCart_m e s cart adminId adminNotes
                in (ok (Some CartRejected) (Some cart'), s')))"


section \<open>Group join workflow (models/Group.js, in src/unnamed/part_006; controllers/groupController.js)\<close>

text \<open>
  Of a group only the fields that the join workflow reads or writes are kept. The group
  is loaded with \<open>Group.findById\<close>, without \<open>populate\<close>, so \<open>join.user_id\<close> is
  an id and \<open>join.user_id.toString() === userId\<close> compares ids. The post-save hook
  that refreshes the owning service's totals is outside this model.
\<close>

datatype join_status = JPending | JApproved | JRejected

datatype member_role = Member | Admin

record join_record =
  j_user_id :: oid
  joined_at :: int
  j_status :: join_status
  j_role :: member_role

record group =
  g_name :: string
  g_is_active :: bool
  is_private :: bool
  group_admin :: oid
  members_count :: int
  joined_users :: "join_record list"
  approval_status :: join_status

datatype gmsg =
    GroupNotFound | GroupNotActiveOrApproved | AlreadyInGroup join_status
  | JoinRequestSubmitted | JoinedGroup
  | NotAuthorized | JoinRequestNotFound | AlreadyApproved | UserApproved | UserRejected

type_synonym gresponse = "nat \<times> gmsg"

text \<open>\<open>group.joined_users.filter((join) => join.status === "approved").length\<close>.\<close>

definition approved_count :: "join_record list \<Rightarrow> int" where
  "approved_count js = int (length (filter (\<lambda>join. j_status join = JApproved) js))"

text \<open>
  \<open>joinRequest.status = v\<close> where \<open>joinRequest\<close> is what
  \<open>group.joined_users.find(...)\<close> returned: the first record of the user is changed in
  place.
\<close>

fun set_first_status :: "oid \<Rightarrow> join_status \<Rightarrow> join_record list \<Rightarrow> join_record list" where
  "set_first_status userId v [] = []"
| "set_first_status userId v (join # rest) =
     (if j_user_id join = userId then join \<lparr> j_status := v \<rparr> # rest
      else join # set_first_status userId v rest)"

definition joinGroup :: "int \<Rightarrow> (oid \<Rightarrow> group option) \<Rightarrow> oid \<Rightarrow> oid \<Rightarrow> gresponse \<times> (oid \<Rightarrow> group option)" where
  "joinGroup t groups groupId userId =
     (case groups groupId of
        None \<Rightarrow> ((404, GroupNotFound), groups)
      | Some g \<Rightarrow>
          if \<not> g_is_active g \<or> approval_status g \<noteq> JApproved
          then ((400, GroupNotActiveOrApproved), groups)
          else (case find (\<lambda>join. j_user_id join = userId) (joined_users g) of
                  Some existingJoin \<Rightarrow> ((400, AlreadyInGroup (j_status existingJoin)), groups)
                | None \<Rightarrow>
                    (let joinStatus = (if is_private g then JPending else JApproved);
                         g1 = g \<lparr> joined_users := joined_users g @
                                 [\<lparr> j_user_id = userId, joined_at = t,
                                    j_status = joinStatus, j_role = Member \<rparr>] \<rparr>;
                         g2 = (if joinStatus = JApproved
                               then g1 \<lparr> members_count := approved_count (joined_users g1) \<rparr>
                               else g1)
                     in ((200, if is_private g then JoinRequestSubmitted else JoinedGroup),
                         groups(groupId \<mapsto> g2)))))"

definition approveUserJoin :: "(oid \<Rightarrow> group option) \<Rightarrow> oid \<Rightarrow> oid \<Rightarrow> oid \<Rightarrow> gresponse \<times> (oid \<Rightarrow> group option)" where
  "approveUserJoin groups currentUserId groupId userId =
     (case groups groupId of
        None \<Rightarrow> ((404, GroupNotFound), groups)
      | Some g \<Rightarrow>
          if group_admin g \<noteq> currentUserId then ((403, NotAuthorized), groups)
          else (case find (\<lambda>join. j_user_id join = userId) (joined_users g) of
                  None \<Rightarrow> ((404, JoinRequestNotFound), groups)
                | Some joinRequest \<Rightarrow>
                    if j_status joinRequest = JApproved then ((400, AlreadyApproved), groups)
                    else (let g1 = g \<lparr> joined_users :=
                                        set_first_status userId JApproved (joined_users g) \<rparr>;
                              g2 = g1 \<lparr> members_count := approved_count (joined_users g1) \<rparr>
                          in ((200, UserApproved), groups(groupId \<mapsto> g2)))))"

definition rejectUserJoin :: "(oid \<Rightarrow> group option) \<Rightarrow> oid \<Rightarrow> oid \<Rightarrow> oid \<Rightarrow> gresponse \<times> (oid \<Rightarrow> group option)" where
  "rejectUserJoin groups currentUserId groupId userId =
     (case groups groupId of
        None \<Rightarrow> ((404, GroupNotFound), groups)
      | Some g \<Rightarrow>
          if group_admin g \<noteq> currentUserId then ((403, NotAuthorized), groups)
          else (case find (\<lambda>join. j_user_id join = userId) (joined_users g) of
                  None \<Rightarrow> ((404, JoinRequestNotFound), groups)
                | Some joinRequest \<Rightarrow>
                    (let g1 = g \<lparr> joined_users :=
                                   set_first_status userId JRejected (joined_users g) \<rparr>
                     in ((200, UserRejected), groups(groupId \<mapsto> g1)))))"

section \<open>Primary product image (models/ProductImage.js, controllers/productController.js)\<close>

text \<open>The ProductImage collection, by \<open>_id\<close>.\<close>

record product_image =
  i_product_id :: oid
  image_url :: string
  image_public_id :: string
  i_is_active :: bool
  is_primary :: bool
  i_order :: int

type_synonym images = "oid \<Rightarrow> product_image option"

text \<open>\<open>this.updateMany({ product_id: productId }, { is_primary: false })\<close>.\<close>

definition clear_primary :: "images \<Rightarrow> oid \<Rightarrow> images" where
  "clear_primary imgs productId =
     (\<lambda>i. case imgs i of
             None \<Rightarrow> None
           | Some im \<Rightarrow> if i_product_id im = productId then Some (im \<lparr> is_primary := False \<rparr>)
                        else Some im)"

text \<open>
  \<open>this.findByIdAndUpdate(imageId, { is_primary: true }, { new: true })\<close>: a query
  update, which does not run the \<open>save\<close> hook; it returns the updated document.
\<close>

definition make_primary :: "images \<Rightarrow> oid \<Rightarrow> images \<times> product_image option" where
  "make_primary imgs imageId =
     (case imgs imageId of
        None \<Rightarrow> (imgs, None)
      | Some im \<Rightarrow> (imgs(imageId \<mapsto> im \<lparr> is_primary := True \<rparr>),
                    Some (im \<lparr> is_primary := True \<rparr>)))"

definition setPrimaryImage_static :: "images \<Rightarrow> oid \<Rightarrow> oid \<Rightarrow> images \<times> product_image option" where
  "setPrimaryImage_static imgs imageId productId =
     make_primary (clear_primary imgs productId) imageId"

datatype imsg = ImgProductNotFound | ImageNotFound | InactiveImage | PrimaryImageSet

definition setPrimaryImage :: "(oid \<Rightarrow> product option) \<Rightarrow> images \<Rightarrow> oid \<Rightarrow> oid \<Rightarrow> (nat \<times> imsg) \<times> images" where
  "setPrimaryImage prods imgs productId imageId =
     (case prods productId of
        None \<Rightarrow> ((404, ImgProductNotFound), imgs)
      | Some product \<Rightarrow>
          (case (case imgs imageId of
                   Some im \<Rightarrow> if i_product_id im = productId then Some im else None
                 | None \<Rightarrow> None) of
             None \<Rightarrow> ((404, ImageNotFound), imgs)
           | Some img \<Rightarrow>
               if \<not> i_is_active img then ((400, InactiveImage), imgs)
               else ((200, PrimaryImageSet),
                     fst (setPrimaryImage_static imgs imageId productId))))"

text \<open>The ids of the images of a product that are flagged primary.\<close>

definition primary_images :: "images \<Rightarrow> oid \<Rightarrow> oid set" where
  "primary_images imgs productId =
     {i. \<exists>im. imgs i = Some im \<and> i_product_id im = productId \<and> is_primary im}"

section \<open>Slugs (pre-save hooks of Category, Product, Group, Service, Blog)\<close>

text \<open>
  The Category hook is in models/Category.js, the hooks of Product and Group in
  src/unnamed/part_006, of Service in src/unnamed/part_007, of Blog in src/unnamed/part_008.
  A name is a list of characters with code points below 256. \<open>\s\<close> matches tab, line
  feed, vertical tab, form feed, carriage return, space and the no-break space.
  \<open>toLowerCase\<close> is modelled on the letters A to Z; the other letters below 256 stay
  outside \<open>[a-zA-Z0-9\s]\<close> in either case, and are deleted by the next step.
\<close>

definition is_space :: "char \<Rightarrow> bool" where
  "is_space c = (let n = (of_char c :: nat) in (9 \<le> n \<and> n \<le> 13) \<or> n = 32 \<or> n = 160)"

definition is_upper :: "char \<Rightarrow> bool" where
  "is_upper c = (let n = (of_char c :: nat) in 65 \<le> n \<and> n \<le> 90)"

definition is_lower :: "char \<Rightarrow> bool" where
  "is_lower c = (let n = (of_char c :: nat) in 97 \<le> n \<and> n \<le> 122)"

definition is_digit :: "char \<Rightarrow> bool" where
  "is_digit c = (let n = (of_char c :: nat) in 48 \<le> n \<and> n \<le> 57)"

definition toLowerCase :: "string \<Rightarrow> string" where
  "toLowerCase str = map (\<lambda>c. if is_upper c then char_of (of_char c + (32 :: nat)) else c) str"

text \<open>\<open>.replace(/[^a-zA-Z0-9\s]/g, "")\<close>\<close>

definition remove_special :: "string \<Rightarrow> string" where
  "remove_special str = filter (\<lambda>c. is_lower c \<or> is_upper c \<or> is_digit c \<or> is_space c) str"

text \<open>\<open>.replace(/\s+/g, "-")\<close>: every maximal run of white space becomes one hyphen.\<close>

function spaces_to_hyphens :: "string \<Rightarrow> string" where
  "spaces_to_hyphens [] = []"
| "spaces_to_hyphens (c # cs) =
     (if is_space c then CHR ''-'' # spaces_to_hyphens (dropWhile is_space cs)
      else c # spaces_to_hyphens cs)"
  by pat_completeness auto
termination
  by (relation "measure length") (auto simp: length_dropWhile_le le_imp_less_Suc)

definition trim :: "string \<Rightarrow> string" where
  "trim str = rev (dropWhile is_space (rev (dropWhile is_space str)))"

definition slugify :: "string \<Rightarrow> string" where
  "slugify name = trim (spaces_to_hyphens (remove_special (toLowerCase name)))"

text \<open>The number in the template string \<open>`${baseSlug}-${counter}`\<close>, in decimal.\<close>

fun show_nat :: "nat \<Rightarrow> string" where
  "show_nat n =
     (if n < 10 then [char_of (48 + n)]
      else show_nat (n div 10) @ [char_of (48 + n mod 10)])"

declare show_nat.simps [simp del]

text \<open>What the slug hooks see of a collection: each document's \<open>_id\<close>, name and slug.\<close>

record entity =
  e_id :: oid
  e_name :: string
  e_slug :: string

text \<open>
  \<open>categorySchema.pre('save')\<close>, for a new or renamed category, and the write that
  follows it against the unique index on \<open>slug\<close>.
\<close>

definition category_pre_save :: "entity \<Rightarrow> entity" where
  "category_pre_save c = c \<lparr> e_slug := slugify (e_name c) \<rparr>"

datatype save_error = DuplicateKey

definition category_save :: "entity list \<Rightarrow> entity \<Rightarrow> save_error + entity list" where
  "category_save coll c =
     (let c' = category_pre_save c
      in if \<exists>x \<in> set coll. e_id x \<noteq> e_id c' \<and> e_slug x = e_slug c'
         then Inl DuplicateKey
         else Inr (filter (\<lambda>x. e_id x \<noteq> e_id c') coll @ [c']))"

text \<open>
  The hook shared by Product, Group, Service and Blog:
  \<open>while (await this.constructor.findOne({ slug, _id: { $ne: this._id } }))\<close>.
  The loop runs on a budget of iterations; \<open>None\<close> means the budget ran out.
\<close>

definition slug_taken :: "entity list \<Rightarrow> oid \<Rightarrow> string \<Rightarrow> bool" where
  "slug_taken coll self slug = (find (\<lambda>x. e_slug x = slug \<and> e_id x \<noteq> self) coll \<noteq> None)"

fun slug_loop :: "nat \<Rightarrow> entity list \<Rightarrow> oid \<Rightarrow> string \<Rightarrow> string \<Rightarrow> nat \<Rightarrow> string option" where
  "slug_loop 0 coll self baseSlug slug counter = None"
| "slug_loop (Suc fuel) coll self baseSlug slug counter =
     (if slug_taken coll self slug
      then slug_loop fuel coll self baseSlug (baseSlug @ ''-'' @ show_nat counter) (counter + 1)
      else Some slug)"

definition product_pre_save :: "nat \<Rightarrow> entity list \<Rightarrow> entity \<Rightarrow> entity option" where
  "product_pre_save fuel coll p =
     (let baseSlug = slugify (e_name p)
      in map_option (\<lambda>slug. p \<lparr> e_slug := slug \<rparr>) (slug_loop fuel coll (e_id p) baseSlug baseSlug 1))"

section \<open>Properties to verify\<close>

subsection \<open>Cart totals\<close>

text \<open>
  The amount of a line and the sum of a list of amounts as the program's arithmetic
  gives them: the product rounded, and the amounts added in order from 0, each partial
  sum rounded.
\<close>

definition line_amount :: "cart_item \<Rightarrow> double" where
  "line_amount item = dmul (price_at_time item) (double_of_int (quantity item))"

definition double_sum :: "double list \<Rightarrow> double" where
  "double_sum ds = foldl dadd (Finite 0) ds"

text \<open>
  The sum of the quantities as the program's arithmetic gives it, for comparison with
  the integer sum that \<open>pre_save\<close> holds.
\<close>

definition double_items :: "cart_item list \<Rightarrow> double" where
  "double_items its = foldl (\<lambda>total item. dadd total (double_of_int (quantity item))) (Finite 0) its"

definition totals_ok :: "cart \<Rightarrow> bool" where
  "totals_ok c =
     (total_amount c = double_sum (map line_amount (items c)) \<and>
      total_items c = (\<Sum>item\<leftarrow>items c. quantity item))"

text \<open>
  The sum of \<open>price_at_time * quantity\<close> over the lines as a sum of exact numbers, each
  price taken at the value the line holds.
\<close>

definition exact_amount :: "cart_item list \<Rightarrow> rat" where
  "exact_amount its =
     (\<Sum>item\<leftarrow>its. (case price_at_time item of Finite r \<Rightarrow> r | _ \<Rightarrow> 0) * of_int (quantity item))"

text \<open>The instance methods of the Cart model that persist a change, as one call.\<close>

datatype cart_method =
    AddItem oid int double | UpdateItemQuantity oid int | RemoveItem oid | ClearCart
  | SubmitForApproval string | ApproveCart oid string | RejectCart oid string | CancelCart

fun call_method :: "env \<Rightarrow> db \<Rightarrow> cart \<Rightarrow> cart_method \<Rightarrow> js_error + db \<times> cart" where
  "call_method e s c (AddItem productId qty priceAtTime) = addItem e s c productId qty priceAtTime"
| "call_method e s c (UpdateItemQuantity productId newQuantity) =
     updateItemQuantity s c productId newQuantity"
| "call_method e s c (RemoveItem productId) = removeItem s c productId"
| "call_method e s c ClearCart = Inr (clearCart_m s c)"
| "call_method e s c (SubmitForApproval nts) = Inr (submitForApproval e s c nts)"
| "call_method e s c (ApproveCart adminId adminNotes) =
     Inr (approveCart_m e s c adminId adminNotes)"
| "call_method e s c (RejectCart adminId adminNotes) =
     Inr (rejectCart_m e s c adminId adminNotes)"
| "call_method e s c CancelCart = Inr (cancelCart_m s c)"

subsection \<open>Lines and products\<close>

text \<open>The user's active cart as the collection stores it.\<close>

definition stored_active_cart :: "db \<Rightarrow> oid \<Rightarrow> cart option" where
  "stored_active_cart s userId = find (\<lambda>c. user_id c = userId \<and> status c = Active) (carts s)"

text \<open>The stored form of a line: the reference is the id.\<close>

definition stored_line :: "cart_item \<Rightarrow> cart_item" where
  "stored_line item = item \<lparr> product_id := Ref (ref_id (product_id item)) \<rparr>"

text \<open>
  A line can be bought as it stands: its product exists, is active, is not expired and
  has at least the line's quantity in stock.
\<close>

definition line_purchasable :: "db \<Rightarrow> int \<Rightarrow> cart_item \<Rightarrow> bool" where
  "line_purchasable s t item =
     (case products s (ref_id (product_id item)) of
        None \<Rightarrow> False
      | Some p \<Rightarrow> p_is_active p \<and> \<not> p_is_expired t p \<and> quantity item \<le> p_quantity p)"

text \<open>
  What a fetch is specified to do with one line: drop it when the product is missing,
  inactive, expired or out of stock; reduce it to the stock when it asks for more; keep
  it otherwise.
\<close>

definition revalidated_line :: "db \<Rightarrow> int \<Rightarrow> cart_item \<Rightarrow> cart_item option" where
  "revalidated_line s t item =
     (case products s (ref_id (product_id item)) of
        None \<Rightarrow> None
      | Some p \<Rightarrow>
          if \<not> p_is_active p \<or> p_is_expired t p \<or> p_quantity p = 0 then None
          else if quantity item > p_quantity p then Some (item \<lparr> quantity := p_quantity p \<rparr>)
          else Some item)"

definition revalidated_items :: "db \<Rightarrow> int \<Rightarrow> cart_item list \<Rightarrow> cart_item list" where
  "revalidated_items s t its = List.map_filter (revalidated_line s t) its"

text \<open>The schema bounds: a line holds at least one unit, a stock is not negative.\<close>

definition wf_lines :: "db \<Rightarrow> cart_item list \<Rightarrow> bool" where
  "wf_lines s its =
     (\<forall>item \<in> set its. quantity item \<ge> 1 \<and>
        (case products s (ref_id (product_id item)) of None \<Rightarrow> True | Some p \<Rightarrow> p_quantity p \<ge> 0))"

subsection \<open>Slug characters\<close>

text \<open>The characters of a lowercase URL-safe slug: a to z, 0 to 9 and the hyphen.\<close>

definition slug_char :: "char \<Rightarrow> bool" where
  "slug_char c = (is_lower c \<or> is_digit c \<or> c = CHR ''-'')"

text \<open>The number that a string of decimal digits denotes.\<close>

definition read_nat :: "string \<Rightarrow> nat" where
  "read_nat str = foldl (\<lambda>acc c. 10 * acc + (of_char c - 48)) 0 str"

section \<open>Example data\<close>

text \<open>
  One user (42) with one cart (7) and a product (1) with five units in stock at price 10,
  active, expiring at time 1000. Requests are made at time 100.
\<close>

definition ex_env :: env where
  "ex_env = \<lparr> now = 100, new_id = 50 \<rparr>"

definition tea :: product where
  "tea = \<lparr> p_name = ''tea'', p_price = Finite 10, p_quantity = 5, p_is_active = True,
          p_expiration_date = 1000 \<rparr>"

definition tea_line :: "int \<Rightarrow> cart_item" where
  "tea_line q = \<lparr> product_id = Ref 1, quantity = q, price_at_time = Finite 10, added_at = 0 \<rparr>"

definition ex_cart :: "cart_item list \<Rightarrow> cart" where
  "ex_cart its = pre_save ((new_cart \<lparr> now = 0, new_id = 7 \<rparr> 42) \<lparr> items := its \<rparr>)"

definition ex_db :: "cart \<Rightarrow> product \<Rightarrow> db" where
  "ex_db c p = \<lparr> carts = [c], products = (\<lambda>i. if i = 1 then Some p else None) \<rparr>"

text \<open>A second product (2) for carts with two lines.\<close>

definition ex_line :: "oid \<Rightarrow> int \<Rightarrow> cart_item" where
  "ex_line productId q =
     \<lparr> product_id = Ref productId, quantity = q, price_at_time = Finite 10, added_at = 0 \<rparr>"

definition ex_db2 :: "cart \<Rightarrow> product option \<Rightarrow> product option \<Rightarrow> db" where
  "ex_db2 c p1 p2 =
     \<lparr> carts = [c], products = (\<lambda>i. if i = 1 then p1 else if i = 2 then p2 else None) \<rparr>"

text \<open>A private group with one approved member, and a product with three images.\<close>

definition ex_group :: group where
  "ex_group = \<lparr> g_name = ''readers'', g_is_active = True, is_private = True, group_admin = 9,
                members_count = 1,
                joined_users = [\<lparr> j_user_id = 2, joined_at = 0, j_status = JApproved, j_role = Member \<rparr>],
                approval_status = JApproved \<rparr>"

definition ex_groups :: "oid \<Rightarrow> group option" where
  "ex_groups = (\<lambda>i. if i = 1 then Some ex_group else None)"

definition ex_image :: "bool \<Rightarrow> product_image" where
  "ex_image prim = \<lparr> i_product_id = 1, image_url = ''u'', image_public_id = ''p'',
                     i_is_active = True, is_primary = prim, i_order = 0 \<rparr>"

definition ex_images :: images where
  "ex_images = (\<lambda>i. if i = 10 \<or> i = 11 then Some (ex_image True)
                    else if i = 12 then Some (ex_image False) else None)"

text \<open>
  Two categories whose names differ only in a character that the slug drops, as the
  collection holds the first and as the second arrives.
\<close>

definition home_and_garden :: entity where
  "home_and_garden = \<lparr> e_id = 1, e_name = ''Home & Garden'', e_slug = ''home-garden'' \<rparr>"

definition home_garden :: entity where
  "home_garden = \<lparr> e_id = 2, e_name = ''Home Garden'', e_slug = [] \<rparr>"

section \<open>Verification\<close>

text \<open>Unfolding the example data and the operations on the database, for evaluation.\<close>

lemmas ex_defs =
  ex_db_def ex_db2_def ex_cart_def ex_line_def tea_line_def tea_def ex_env_def new_cart_def
  pre_save_def

lemmas cart_defs =
  stored_active_cart_def getUserActiveCart_def findById_def populate_def populate_item_def
  select_fields_def active_cart_fields_def approve_fields_def canBeModified_def
  canBeProcessed_def p_is_expired_def d_is_expired_def truthy_def js_le_def js_gt_def
  line_purchasable_def save_def upsert_def depopulate_def fail_def ok_def caught_def

subsection \<open>Double-precision arithmetic\<close>

text \<open>
  Rounding a positive rational, step by step: the exponent, the significand rounded to
  an integer (ties to even), the result, which is below the overflow threshold.
\<close>

lemma round_double_finite:
  assumes "x > 0" and "ilog2 x = e0" and "max e0 (- 1022) = e"
      and "round_half_even (x / pow2 (e - 52)) = m"
      and "of_int m * pow2 (e - 52) = r" and "r < pow2 1024"
  shows "round_double x = Finite r"
  using assms by (simp add: round_double_def Let_def)

text \<open>
  Whole numbers below \<open>2^53\<close> are doubles, and sums of them that stay below \<open>2^53\<close>
  are exact: the sum of the quantities of a cart as the program adds them is the integer
  sum.
\<close>

lemma bit_length_bounds:
  "0 < n \<Longrightarrow> 1 \<le> bit_length n \<and> 2 ^ nat (bit_length n - 1) \<le> n \<and> n < 2 ^ nat (bit_length n)"
proof (induction n rule: bit_length.induct)
  case (1 n)
  show ?case
  proof (cases "n div 2 = 0")
    case True
    with "1.prems" have "n = 1" by simp
    then show ?thesis by (simp add: bit_length.simps)
  next
    case False
    with "1.prems" have pos: "0 < n div 2" by simp
    from "1.prems" have nle: "\<not> n \<le> 0" by simp
    define k where "k = bit_length (n div 2)"
    from "1.IH" [OF nle pos] have k1: "1 \<le> k" and lo: "2 ^ nat (k - 1) \<le> n div 2"
      and hi: "n div 2 < 2 ^ nat k" by (simp_all add: k_def)
    have bl: "bit_length n = 1 + k" using "1.prems" by (simp add: bit_length.simps [of n] k_def)
    have nk: "nat (1 + k - 1) = Suc (nat (k - 1))" "nat (1 + k) = Suc (nat k)" using k1 by simp_all
    have nk': "nat k = Suc (nat (k - 1))" using k1 by simp
    have "2 * 2 ^ nat (k - 1) \<le> n" using lo by simp
    then have "2 ^ nat k \<le> n" by (subst nk') simp
    moreover have "n < 2 * 2 ^ nat k" using hi by simp
    ultimately show ?thesis using k1 by (simp add: bl nk)
  qed
qed

lemma round_half_even_of_int: "round_half_even (of_int k) = k"
  by (simp add: round_half_even_def)

lemma round_double_of_int:
  assumes "0 < n" and "n < 2 ^ 53"
  shows "round_double (of_int n) = Finite (of_int n)"
proof -
  define e where "e = bit_length n - 1"
  from bit_length_bounds [OF assms(1)]
  have e0: "0 \<le> e" and lo: "2 ^ nat e \<le> n" by (simp_all add: e_def)
  have "(2::int) ^ nat e < 2 ^ 53" by (rule order.strict_trans1 [OF lo assms(2)])
  then have "nat e < 53" by (rule power_less_imp_less_exp [rotated]) simp
  then have e52: "e \<le> 52" by simp
  define j where "j = nat (52 - e)"
  have ulp: "pow2 (e - 52) = 1 / 2 ^ j"
    using e52 by (cases "e = 52") (simp_all add: pow2_def j_def)
  show ?thesis
  proof (rule round_double_finite)
    show "0 < (of_int n :: rat)" using assms(1) by simp
    show "ilog2 (of_int n) = e" using assms(1) by (simp add: ilog2_def e_def)
    show "max e (- 1022) = e" using e0 by simp
    have "(of_int n :: rat) / pow2 (e - 52) = of_int (n * 2 ^ j)" by (simp add: ulp)
    then show "round_half_even (of_int n / pow2 (e - 52)) = n * 2 ^ j"
      by (simp only: round_half_even_of_int)
    show "of_int (n * 2 ^ j) * pow2 (e - 52) = (of_int n :: rat)" by (simp add: ulp)
    have "(of_int n :: rat) < of_int (2 ^ 53)" using assms(2) by (simp only: of_int_less_iff)
    also have "\<dots> < pow2 1024" by (simp add: pow2_def)
    finally show "(of_int n :: rat) < pow2 1024" .
  qed
qed

lemma double_of_int_exact:
  assumes "0 \<le> n" and "n < 2 ^ 53"
  shows "double_of_int n = Finite (of_int n)"
proof (cases "n = 0")
  case True
  then show ?thesis by (simp add: double_of_int_def round_double_def)
next
  case False
  with assms(1) have "0 < n" by simp
  from round_double_of_int [OF this assms(2)] show ?thesis by (simp add: double_of_int_def)
qed

lemma dadd_of_int:
  assumes "0 \<le> a + b" and "a + b < 2 ^ 53"
  shows "dadd (Finite (of_int a)) (Finite (of_int b)) = Finite (of_int (a + b))"
  using double_of_int_exact [OF assms] by (simp add: double_of_int_def)

lemma foldl_quantities_exact:
  assumes "\<forall>item\<in>set its. 0 \<le> quantity item" and "0 \<le> acc"
      and "acc + (\<Sum>item\<leftarrow>its. quantity item) < 2 ^ 53"
  shows "foldl (\<lambda>total item. dadd total (double_of_int (quantity item))) (Finite (of_int acc)) its
           = Finite (of_int (acc + (\<Sum>item\<leftarrow>its. quantity item)))"
  using assms
proof (induction its arbitrary: acc)
  case Nil
  then show ?case by simp
next
  case (Cons item its)
  have nonneg: "0 \<le> (\<Sum>item\<leftarrow>its. quantity item)"
    using Cons.prems(1) by (intro sum_list_nonneg) auto
  have q0: "0 \<le> quantity item" using Cons.prems(1) by simp
  have q: "quantity item < 2 ^ 53" using Cons.prems(2,3) nonneg by simp
  have s: "acc + quantity item < 2 ^ 53" using Cons.prems(3) nonneg by simp
  have step: "dadd (Finite (of_int acc)) (double_of_int (quantity item))
                = Finite (of_int (acc + quantity item))"
    using dadd_of_int [of acc "quantity item"] Cons.prems(2) q0 s
    by (simp add: double_of_int_exact [OF q0 q])
  have "foldl (\<lambda>total item. dadd total (double_of_int (quantity item)))
          (Finite (of_int (acc + quantity item))) its
        = Finite (of_int (acc + quantity item + (\<Sum>item\<leftarrow>its. quantity item)))"
    using Cons.prems by (intro Cons.IH) (simp_all add: q0 add.assoc)
  then show ?case by (simp add: step add.assoc)
qed

lemma double_items_exact:
  assumes "\<forall>item\<in>set its. 0 \<le> quantity item"
      and "(\<Sum>item\<leftarrow>its. quantity item) < 2 ^ 53"
  shows "double_items its = Finite (of_int (\<Sum>item\<leftarrow>its. quantity item))"
  using foldl_quantities_exact [of its 0] assms by (simp add: double_items_def)

text \<open>The roundings of the examples.\<close>

lemma round_double_tenth:
  "round_double (1 / 10) = Finite (3602879701896397 / 36028797018963968)"
proof (rule round_double_finite)
  show "(0::rat) < 1 / 10" by simp
  show "ilog2 (1 / 10) = - 4" by code_simp
  show "max (- 4) (- 1022) = (- 4 :: int)" by simp
  show "round_half_even (1 / 10 / pow2 (- 4 - 52)) = 7205759403792794" by code_simp
  show "of_int 7205759403792794 * pow2 (- 4 - 52) = (3602879701896397 / 36028797018963968 :: rat)"
    by (simp add: pow2_def)
  show "(3602879701896397 / 36028797018963968 :: rat) < pow2 1024" by (simp add: pow2_def)
qed

lemma round_double_3: "round_double 3 = Finite 3"
  using round_double_of_int [of 3] by simp

lemma round_double_5: "round_double 5 = Finite 5"
  using round_double_of_int [of 5] by simp

lemma round_double_50: "round_double 50 = Finite 50"
  using round_double_of_int [of 50] by simp

lemma round_double_three_tenths:
  "round_double (10808639105689191 / 36028797018963968)
     = Finite (1351079888211149 / 4503599627370496)"
proof (rule round_double_finite)
  show "(0::rat) < 10808639105689191 / 36028797018963968" by simp
  show "ilog2 (10808639105689191 / 36028797018963968) = - 2" by code_simp
  show "max (- 2) (- 1022) = (- 2 :: int)" by simp
  show "round_half_even (10808639105689191 / 36028797018963968 / pow2 (- 2 - 52))
          = 5404319552844596" by code_simp
  show "of_int 5404319552844596 * pow2 (- 2 - 52) = (1351079888211149 / 4503599627370496 :: rat)"
    by (simp add: pow2_def)
  show "(1351079888211149 / 4503599627370496 :: rat) < pow2 1024" by (simp add: pow2_def)
qed

lemma round_double_rounded_three_tenths:
  "round_double (1351079888211149 / 4503599627370496)
     = Finite (1351079888211149 / 4503599627370496)"
proof (rule round_double_finite)
  show "(0::rat) < 1351079888211149 / 4503599627370496" by simp
  show "ilog2 (1351079888211149 / 4503599627370496) = - 2"
    by code_simp
  show "max (- 2) (- 1022) = (- 2 :: int)" by simp
  show "round_half_even (1351079888211149 / 4503599627370496 / pow2 (- 2 - 52))
          = 5404319552844596" by code_simp
  show "of_int 5404319552844596 * pow2 (- 2 - 52) = (1351079888211149 / 4503599627370496 :: rat)"
    by (simp add: pow2_def)
  show "(1351079888211149 / 4503599627370496 :: rat) < pow2 1024" by (simp add: pow2_def)
qed

lemma amount_10_5: "dadd (Finite 0) (dmul (Finite 10) (double_of_int 5)) = Finite 50"
  by (simp add: double_of_int_def round_double_5 round_double_50)

lemma amount_tenth_3:
  "dadd (Finite 0) (dmul (Finite (3602879701896397 / 36028797018963968)) (double_of_int 3))
     = Finite (1351079888211149 / 4503599627370496)"
  by (simp add: double_of_int_def round_double_3 round_double_three_tenths
        round_double_rounded_three_tenths)

subsection \<open>Saving a cart\<close>

lemma foldl_add_sum_list:
  fixes f :: "'a \<Rightarrow> 'b::comm_monoid_add"
  shows "foldl (\<lambda>total item. total + f item) a xs = a + sum_list (map f xs)"
  by (induction xs arbitrary: a) (simp_all add: add.assoc)

lemma pre_save_totals_ok: "totals_ok (pre_save c)"
  by (simp add: pre_save_def totals_ok_def double_sum_def line_amount_def foldl_map
        foldl_add_sum_list)

text \<open>
  \<open>total_items\<close> as the hook holds it is the number that the program computes, for
  quantities that are not negative and add up to less than \<open>2^53\<close>.
\<close>

lemma pre_save_total_items_as_computed:
  assumes "\<forall>item\<in>set (items c). 0 \<le> quantity item"
      and "(\<Sum>item\<leftarrow>items c. quantity item) < 2 ^ 53"
  shows "double_items (items c) = Finite (of_int (total_items (pre_save c)))"
  using double_items_exact [OF assms]
  by (cases "items c") (simp_all add: pre_save_def foldl_add_sum_list double_items_def)

lemma pre_save_fields [simp]:
  "items (pre_save c) = items c" "c_id (pre_save c) = c_id c" "status (pre_save c) = status c"
  "user_id (pre_save c) = user_id c" "c_notes (pre_save c) = c_notes c"
  "submitted_at (pre_save c) = submitted_at c"
  by (simp_all add: pre_save_def)

lemma depopulate_fields [simp]:
  "c_id (depopulate c) = c_id c" "status (depopulate c) = status c"
  "user_id (depopulate c) = user_id c" "c_notes (depopulate c) = c_notes c"
  "submitted_at (depopulate c) = submitted_at c"
  "items (depopulate c) = map stored_line (items c)"
  by (simp_all add: depopulate_def stored_line_def)

lemma line_amount_product_id [simp]:
  "line_amount (item \<lparr> product_id := r \<rparr>) = line_amount item"
  by (simp add: line_amount_def)

lemma depopulate_totals_ok: "totals_ok c \<Longrightarrow> totals_ok (depopulate c)"
  by (simp add: totals_ok_def depopulate_def comp_def)

lemma find_upsert: "find (\<lambda>x. c_id x = c_id c) (upsert c cs) = Some c"
proof (cases "c_id c \<in> set (map c_id cs)")
  case True
  have "c_id c \<in> set (map c_id xs) \<Longrightarrow>
        find (\<lambda>x. c_id x = c_id c) (map (\<lambda>x. if c_id x = c_id c then c else x) xs) = Some c" for xs
    by (induction xs) auto
  with True show ?thesis by (simp add: upsert_def)
next
  case False
  have "c_id c \<notin> set (map c_id xs) \<Longrightarrow> find (\<lambda>x. c_id x = c_id c) (xs @ [c]) = Some c" for xs
    by (induction xs) auto
  with False show ?thesis by (simp add: upsert_def)
qed

lemma save_stored:
  assumes "save s c = (s', c')"
  shows "c' = pre_save c" and "findById s' (c_id c) = Some (depopulate c')"
    and "products s' = products s"
  using assms find_upsert [of "depopulate (pre_save c)" "carts s"]
  by (auto simp: save_def Let_def findById_def)

lemma save_totals:
  assumes "save s c = (s', c')"
  shows "totals_ok c' \<and> findById s' (c_id c) = Some (depopulate c') \<and> totals_ok (depopulate c')"
  using save_stored [OF assms] pre_save_totals_ok depopulate_totals_ok by auto

lemma totals_ok_empty:
  "totals_ok c \<Longrightarrow> items c = [] \<Longrightarrow> total_amount c = Finite 0 \<and> total_items c = 0"
  by (simp add: totals_ok_def double_sum_def)

text \<open>
  C1, as amended. After every method of the Cart model that persists a change (add item,
  update quantity, remove, clear, submit, approve, reject, cancel), the document in
  memory and the document written to the collection have \<open>total_amount\<close> equal to the
  sum of \<open>price_at_time * quantity\<close> over the lines as double-precision arithmetic gives
  it (each product rounded, the products added in the order of the lines from 0, each
  partial sum rounded) and \<open>total_items\<close> equal to the sum of the quantities; with no
  lines both are 0.
\<close>

theorem cart_totals_after_every_save:
  assumes "call_method e s c m = Inr (s', c')"
  shows "totals_ok c' \<and> findById s' (c_id c) = Some (depopulate c') \<and> totals_ok (depopulate c')
         \<and> (items c' = [] \<longrightarrow> total_amount c' = Finite 0 \<and> total_items c' = 0)"
proof -
  obtain c0 where "save s c0 = (s', c')" and "c_id c0 = c_id c"
    using assms
    by (cases m)
       (auto simp: addItem_def updateItemQuantity_def removeItem_def clearCart_m_def
          submitForApproval_def approveCart_m_def rejectCart_m_def cancelCart_m_def
          split: sum.splits option.splits if_splits)
  with save_totals [of s c0 s' c'] totals_ok_empty [of c'] show ?thesis by auto
qed

theorem cart_totals_after_every_save_witness:
  "call_method ex_env (ex_db (ex_cart [tea_line 3]) tea) (ex_cart [tea_line 3]) (AddItem 1 2 (Finite 10))
     = Inr (save (ex_db (ex_cart [tea_line 3]) tea) (ex_cart [tea_line 5]))
   \<and> totals_ok (snd (save (ex_db (ex_cart [tea_line 3]) tea) (ex_cart [tea_line 5])))
   \<and> total_items (snd (save (ex_db (ex_cart [tea_line 3]) tea) (ex_cart [tea_line 5]))) = 5
   \<and> total_amount (snd (save (ex_db (ex_cart [tea_line 3]) tea) (ex_cart [tea_line 5]))) = Finite 50"
proof -
  have call: "call_method ex_env (ex_db (ex_cart [tea_line 3]) tea) (ex_cart [tea_line 3]) (AddItem 1 2 (Finite 10))
     = Inr (save (ex_db (ex_cart [tea_line 3]) tea) (ex_cart [tea_line 5]))"
    by (simp add: addItem_def findIndex_def ex_cart_def tea_line_def pre_save_def new_cart_def save_def)
  then have "call_method ex_env (ex_db (ex_cart [tea_line 3]) tea) (ex_cart [tea_line 3]) (AddItem 1 2 (Finite 10))
     = Inr (fst (save (ex_db (ex_cart [tea_line 3]) tea) (ex_cart [tea_line 5])),
            snd (save (ex_db (ex_cart [tea_line 3]) tea) (ex_cart [tea_line 5])))"
    by simp
  from cart_totals_after_every_save [OF this]
  have ok: "totals_ok (snd (save (ex_db (ex_cart [tea_line 3]) tea) (ex_cart [tea_line 5])))"
    by blast
  note sum = amount_10_5
  have "total_items (snd (save (ex_db (ex_cart [tea_line 3]) tea) (ex_cart [tea_line 5]))) = 5"
   and "total_amount (snd (save (ex_db (ex_cart [tea_line 3]) tea) (ex_cart [tea_line 5]))) = Finite 50"
    by (simp_all add: save_def Let_def ex_cart_def tea_line_def pre_save_def new_cart_def sum)
  with call ok show ?thesis by blast
qed

text \<open>
  The claim as it is written, with the sum an exact one: a cart that gets its first
  line, 3 units at the price 0.1 (as a double, \<open>3602879701896397 / 2^55\<close>). The exact
  sum is three times that price; the total that is saved is the double next above it,
  which prints as 0.30000000000000004.
\<close>

theorem cart_total_amount_exact_counterexample:
  "round_double (1 / 10) = Finite (3602879701896397 / 36028797018963968)
   \<and> call_method ex_env (ex_db (ex_cart []) tea) (ex_cart [])
        (AddItem 1 3 (Finite (3602879701896397 / 36028797018963968)))
       = Inr (save (ex_db (ex_cart []) tea)
               ((ex_cart []) \<lparr> items :=
                  [\<lparr> product_id = Ref 1, quantity = 3,
                     price_at_time = Finite (3602879701896397 / 36028797018963968),
                     added_at = 100 \<rparr>] \<rparr>))
   \<and> total_amount (snd (save (ex_db (ex_cart []) tea)
               ((ex_cart []) \<lparr> items :=
                  [\<lparr> product_id = Ref 1, quantity = 3,
                     price_at_time = Finite (3602879701896397 / 36028797018963968),
                     added_at = 100 \<rparr>] \<rparr>)))
       = Finite (1351079888211149 / 4503599627370496)
   \<and> exact_amount (items (snd (save (ex_db (ex_cart []) tea)
               ((ex_cart []) \<lparr> items :=
                  [\<lparr> product_id = Ref 1, quantity = 3,
                     price_at_time = Finite (3602879701896397 / 36028797018963968),
                     added_at = 100 \<rparr>] \<rparr>))))
       = 10808639105689191 / 36028797018963968
   \<and> (1351079888211149 / 4503599627370496 :: rat) \<noteq> 10808639105689191 / 36028797018963968"
proof -
  note tenth = round_double_tenth
  note amount = amount_tenth_3
  have call: "call_method ex_env (ex_db (ex_cart []) tea) (ex_cart [])
        (AddItem 1 3 (Finite (3602879701896397 / 36028797018963968)))
       = Inr (save (ex_db (ex_cart []) tea)
               ((ex_cart []) \<lparr> items :=
                  [\<lparr> product_id = Ref 1, quantity = 3,
                     price_at_time = Finite (3602879701896397 / 36028797018963968),
                     added_at = 100 \<rparr>] \<rparr>))"
    by (simp add: addItem_def findIndex_def ex_cart_def pre_save_def new_cart_def ex_env_def)
  have total: "total_amount (snd (save (ex_db (ex_cart []) tea)
               ((ex_cart []) \<lparr> items :=
                  [\<lparr> product_id = Ref 1, quantity = 3,
                     price_at_time = Finite (3602879701896397 / 36028797018963968),
                     added_at = 100 \<rparr>] \<rparr>)))
       = Finite (1351079888211149 / 4503599627370496)"
    by (simp add: save_def Let_def pre_save_def amount)
  have exact: "exact_amount (items (snd (save (ex_db (ex_cart []) tea)
               ((ex_cart []) \<lparr> items :=
                  [\<lparr> product_id = Ref 1, quantity = 3,
                     price_at_time = Finite (3602879701896397 / 36028797018963968),
                     added_at = 100 \<rparr>] \<rparr>))))
       = 10808639105689191 / 36028797018963968"
    by (simp add: save_def Let_def pre_save_def exact_amount_def)
  have "(1351079888211149 / 4503599627370496 :: rat) \<noteq> 10808639105689191 / 36028797018963968"
    by simp
  with tenth call total exact show ?thesis by blast
qed

subsection \<open>Populated carts\<close>

lemma getUserActiveCart_stored:
  "getUserActiveCart s userId =
     map_option (populate active_cart_fields (products s)) (stored_active_cart s userId)"
  by (simp add: getUserActiveCart_def stored_active_cart_def)

lemma stored_active_cart_Some:
  "stored_active_cart s userId = Some c \<Longrightarrow> status c = Active \<and> user_id c = userId"
  by (auto simp: stored_active_cart_def find_Some_iff)

lemma populate_fields [simp]:
  "items (populate fs prods c) = map (populate_item fs prods) (items c)"
  "status (populate fs prods c) = status c" "c_id (populate fs prods c) = c_id c"
  by (simp_all add: populate_def)

lemma depopulate_pre_save: "depopulate (pre_save c) = pre_save (depopulate c)"
  by (simp add: depopulate_def pre_save_def foldl_map)

lemma stored_line_populate_item [simp]:
  "stored_line (populate_item fs prods item) = stored_line item"
  by (simp add: stored_line_def populate_item_def)

lemma depopulate_populate [simp]: "depopulate (populate fs prods c) = depopulate c"
  by (simp add: depopulate_def populate_def populate_item_def comp_def)

lemma depopulate_populate_items:
  "depopulate ((populate fs prods c) \<lparr> items := map (populate_item fs prods) its \<rparr>)
     = (depopulate c) \<lparr> items := map stored_line its \<rparr>"
  by (simp add: depopulate_def populate_def stored_line_def populate_item_def comp_def)

lemma depopulate_populate_update:
  "depopulate (pre_save ((populate fs prods c) \<lparr> status := st, c_notes := n, submitted_at := t \<rparr>))
     = pre_save ((depopulate c) \<lparr> status := st, c_notes := n, submitted_at := t \<rparr>)"
proof -
  have "depopulate ((populate fs prods c) \<lparr> status := st, c_notes := n, submitted_at := t \<rparr>)
          = (depopulate c) \<lparr> status := st, c_notes := n, submitted_at := t \<rparr>"
    by (cases c) (simp add: depopulate_def populate_def populate_item_def comp_def)
  then show ?thesis by (simp add: depopulate_pre_save)
qed

lemma populate_item_quantity:
  "populate_item fs prods (item \<lparr> quantity := q \<rparr>) = (populate_item fs prods item) \<lparr> quantity := q \<rparr>"
  "quantity (populate_item fs prods item) = quantity item"
  by (simp_all add: populate_item_def)

lemma quantity_update_same: "(item \<lparr> quantity := q \<rparr> = item) = (quantity item = q)"
  by (cases item) auto

lemma product_of_ref_populate_item [simp]:
  "product_of_ref s (product_id (populate_item fs (products s) item))
     = products s (ref_id (product_id item))"
  by (cases "products s (ref_id (product_id item))") (simp_all add: populate_item_def)

lemma find_item_populated:
  assumes "\<forall>item \<in> set its. products s (ref_id (product_id item)) \<noteq> None"
  shows "find_item (map (populate_item fs (products s)) its) productId = Inr None"
  using assms by (induction its) (auto simp: populate_item_def)

lemma findIndex_from_populated:
  assumes "\<forall>item \<in> set its. products s (ref_id (product_id item)) \<noteq> None"
  shows "findIndex_from k (map (populate_item fs (products s)) its) productId = Inr None"
  using assms by (induction its arbitrary: k) (auto simp: populate_item_def)

subsection \<open>Fetching the active cart\<close>

lemma revalidate_populated:
  assumes "wf_lines s its"
  shows "revalidate t (map (populate_item active_cart_fields (products s)) its) acc ch =
           (acc @ map (populate_item active_cart_fields (products s)) (revalidated_items s t its),
            ch \<or> \<not> list_all (\<lambda>item. revalidated_line s t item = Some item) its)"
  using assms
proof (induction its arbitrary: acc ch)
  case Nil
  then show ?case by (simp add: revalidated_items_def map_filter_simps)
next
  case (Cons item rest)
  from Cons.prems have wf: "wf_lines s rest" and q: "quantity item \<ge> 1"
    by (simp_all add: wf_lines_def)
  note IH = Cons.IH [OF wf]
  show ?case
  proof (cases "products s (ref_id (product_id item))")
    case None
    then have "product_id (populate_item active_cart_fields (products s) item) =
                 Populated (ref_id (product_id item)) None"
      by (simp add: populate_item_def)
    with None show ?thesis
      by (simp add: IH revalidated_items_def map_filter_simps revalidated_line_def)
  next
    case (Some p)
    with Cons.prems have stock: "p_quantity p \<ge> 0" by (simp add: wf_lines_def)
    have pi: "product_id (populate_item active_cart_fields (products s) item) =
                Populated (ref_id (product_id item)) (Some (select_fields active_cart_fields p))"
      by (simp add: populate_item_def Some)
    have sel: "d_is_active (select_fields active_cart_fields p) = Some (p_is_active p)"
      "d_quantity (select_fields active_cart_fields p) = Some (p_quantity p)"
      "d_is_expired t (select_fields active_cart_fields p) = p_is_expired t p"
      by (simp_all add: select_fields_def active_cart_fields_def d_is_expired_def p_is_expired_def)
    show ?thesis
      using q stock
      by (auto simp: IH pi sel Some truthy_def js_le_def populate_item_quantity
            quantity_update_same revalidated_items_def map_filter_simps revalidated_line_def)
  qed
qed

text \<open>
  C6. A fetch of the user's active cart checks every line against its product as it is
  now. A line whose product is missing, inactive, expired or out of stock is removed; a
  line that asks for more than the positive stock is reduced to the stock. When no line
  needed that, the cart is returned as it is, with no message, and nothing is written.
  Otherwise the corrected cart is written (with its totals recomputed), it is the cart
  in the response, and the response carries the cart-updated notice. Lines and stocks
  are within the schema bounds (a line holds at least 1, a stock is at least 0).
\<close>

theorem getUserCart_revalidates:
  assumes "stored_active_cart s userId = Some c" and "wf_lines s (items c)"
  shows "if list_all (\<lambda>item. revalidated_line s (now e) item = Some item) (items c)
         then getUserCart e s userId =
                (ok None (Some (populate active_cart_fields (products s) c)), s)
         else (\<exists>s' cart'.
                 getUserCart e s userId = (ok (Some CartUpdatedNotice) (Some cart'), s') \<and>
                 findById s' (c_id c) = Some (depopulate cart') \<and>
                 products s' = products s \<and>
                 depopulate cart' =
                   pre_save ((depopulate c) \<lparr> items := map stored_line (revalidated_items s (now e) (items c)) \<rparr>))"
proof -
  let ?pc = "populate active_cart_fields (products s) c"
  let ?valid = "map (populate_item active_cart_fields (products s)) (revalidated_items s (now e) (items c))"
  have active: "getUserActiveCart s userId = Some ?pc"
    by (simp add: getUserActiveCart_stored assms(1))
  have loop: "revalidate (now e) (map (populate_item active_cart_fields (products s)) (items c)) [] False =
                (?valid, \<not> list_all (\<lambda>item. revalidated_line s (now e) item = Some item) (items c))"
    using revalidate_populated [OF assms(2), of "now e" "[]" False] by simp
  show ?thesis
  proof (cases "list_all (\<lambda>item. revalidated_line s (now e) item = Some item) (items c)")
    case True
    then show ?thesis by (simp add: getUserCart_def active loop)
  next
    case False
    obtain s' cart' where sv: "save s (?pc \<lparr> items := ?valid \<rparr>) = (s', cart')"
      by (cases "save s (?pc \<lparr> items := ?valid \<rparr>)")
    have res: "getUserCart e s userId = (ok (Some CartUpdatedNotice) (Some cart'), s')"
      using False by (simp add: getUserCart_def active loop sv)
    from save_stored [OF sv]
    have c': "cart' = pre_save (?pc \<lparr> items := ?valid \<rparr>)"
      and st: "findById s' (c_id c) = Some (depopulate cart')"
      and pr: "products s' = products s"
      by (simp_all add: populate_def)
    have "depopulate cart' =
            pre_save ((depopulate c) \<lparr> items := map stored_line (revalidated_items s (now e) (items c)) \<rparr>)"
      by (simp add: c' depopulate_pre_save depopulate_populate_items)
    with res st pr False show ?thesis by auto
  qed
qed

theorem getUserCart_revalidates_witness:
  "stored_active_cart (ex_db (ex_cart [tea_line 8]) tea) 42 = Some (ex_cart [tea_line 8])
   \<and> wf_lines (ex_db (ex_cart [tea_line 8]) tea) (items (ex_cart [tea_line 8]))
   \<and> revalidated_items (ex_db (ex_cart [tea_line 8]) tea) (now ex_env) [tea_line 8] = [tea_line 5]
   \<and> message (fst (getUserCart ex_env (ex_db (ex_cart [tea_line 8]) tea) 42)) = Some CartUpdatedNotice
   \<and> findById (snd (getUserCart ex_env (ex_db (ex_cart [tea_line 8]) tea) 42)) 7
         = Some (ex_cart [tea_line 5])"
proof -
  let ?D = "ex_db (ex_cart [tea_line 8]) tea"
  have found: "stored_active_cart ?D 42 = Some (ex_cart [tea_line 8])"
    by (simp add: stored_active_cart_def ex_db_def ex_cart_def new_cart_def pre_save_def)
  have wf: "wf_lines ?D (items (ex_cart [tea_line 8]))"
    by (simp add: wf_lines_def ex_db_def ex_cart_def tea_line_def tea_def)
  have rv: "revalidated_items ?D (now ex_env) [tea_line 8] = [tea_line 5]"
    by (simp add: revalidated_items_def map_filter_simps revalidated_line_def ex_db_def
          tea_line_def tea_def ex_env_def p_is_expired_def)
  have changed: "\<not> list_all (\<lambda>item. revalidated_line ?D (now ex_env) item = Some item)
                     (items (ex_cart [tea_line 8]))"
    by (simp add: revalidated_line_def ex_db_def ex_cart_def tea_line_def tea_def ex_env_def
          p_is_expired_def)
  from getUserCart_revalidates [OF found wf, of ex_env] changed
  obtain s' cart' where
    res: "getUserCart ex_env ?D 42 = (ok (Some CartUpdatedNotice) (Some cart'), s')" and
    st: "findById s' (c_id (ex_cart [tea_line 8])) = Some (depopulate cart')" and
    dc: "depopulate cart' =
           pre_save ((depopulate (ex_cart [tea_line 8]))
             \<lparr> items := map stored_line (revalidated_items ?D (now ex_env) (items (ex_cart [tea_line 8]))) \<rparr>)"
    by auto
  have eq: "pre_save ((depopulate (ex_cart [tea_line 8]))
             \<lparr> items := map stored_line (revalidated_items ?D (now ex_env) (items (ex_cart [tea_line 8]))) \<rparr>)
        = ex_cart [tea_line 5]"
    using rv by (simp add: ex_cart_def depopulate_def stored_line_def tea_line_def pre_save_def new_cart_def)
  have id: "c_id (ex_cart [tea_line 8]) = 7"
    by (simp add: ex_cart_def new_cart_def)
  from res have m: "message (fst (getUserCart ex_env ?D 42)) = Some CartUpdatedNotice"
    by (simp add: ok_def)
  from res st dc eq id have f: "findById (snd (getUserCart ex_env ?D 42)) 7 = Some (ex_cart [tea_line 5])"
    by simp
  from found wf rv m f show ?thesis by blast
qed

text \<open>
  A user without an active cart gets a new, empty one: it is written to the collection
  and returned with no message.
\<close>

lemma getUserCart_creates:
  assumes "stored_active_cart s userId = None" and "new_id e \<notin> c_id ` set (carts s)"
  shows "getUserCart e s userId =
           (ok None (Some (new_cart e userId)), s \<lparr> carts := carts s @ [new_cart e userId] \<rparr>)"
proof -
  have n: "pre_save (new_cart e userId) = new_cart e userId"
    "depopulate (new_cart e userId) = new_cart e userId"
    "populate active_cart_fields (products s) (new_cart e userId) = new_cart e userId"
    by (simp_all add: pre_save_def new_cart_def depopulate_def populate_def)
  have sv: "save s (new_cart e userId) =
              (s \<lparr> carts := carts s @ [new_cart e userId] \<rparr>, new_cart e userId)"
  proof -
    have "c_id (new_cart e userId) = new_id e" by (simp add: new_cart_def)
    with assms(2) show ?thesis by (simp add: save_def Let_def n upsert_def)
  qed
  have "find (\<lambda>c. user_id c = userId \<and> status c = Active) (xs @ [new_cart e userId])
          = Some (new_cart e userId)"
    if "find (\<lambda>c. user_id c = userId \<and> status c = Active) xs = None" for xs
    using that by (induction xs) (auto simp: new_cart_def split: if_splits)
  with assms(1)
  have fnd: "getUserActiveCart (s \<lparr> carts := carts s @ [new_cart e userId] \<rparr>) userId
               = Some (new_cart e userId)"
    by (simp add: getUserActiveCart_def stored_active_cart_def n)
  have none: "getUserActiveCart s userId = None"
    using assms(1) by (simp add: getUserActiveCart_stored)
  have "items (new_cart e userId) = []" by (simp add: new_cart_def)
  then show ?thesis
    by (simp add: getUserCart_def none sv fnd)
qed

subsection \<open>Submitting a cart\<close>

lemma submit_check_populated:
  "(submit_check e s (map (populate_item fs (products s)) its) = None)
     = (\<forall>item \<in> set its. line_purchasable s (now e) item)"
  by (induction its)
     (auto simp: line_purchasable_def populate_item_quantity split: option.splits)

text \<open>
  C4, as amended. For a user with an active cart: submitting it with no lines fails with
  status 400 and writes nothing; submitting it with at least one line, when the product
  of every line exists, is active, is not expired and has at least the line's quantity in
  stock, succeeds and leaves the cart stored with status pending, \<open>submitted_at\<close> set
  to the time of the request and the user's notes, its lines as they were.
\<close>

theorem submitCart_amended:
  assumes "stored_active_cart s userId = Some c"
  shows "(items c = [] \<longrightarrow> submitCart e s userId nts = (fail 400 CannotSubmitEmpty, s)) \<and>
         (items c \<noteq> [] \<and> (\<forall>item \<in> set (items c). line_purchasable s (now e) item) \<longrightarrow>
            (\<exists>s'. submitCart e s userId nts =
                     (ok (Some CartSubmitted) (getUserActiveCart s' userId), s') \<and>
                   findById s' (c_id c) =
                     Some (pre_save ((depopulate c)
                       \<lparr> status := Pending, c_notes := Some nts, submitted_at := Some (now e) \<rparr>))))"
proof -
  let ?pc = "populate active_cart_fields (products s) c"
  have active: "getUserActiveCart s userId = Some ?pc"
    by (simp add: getUserActiveCart_stored assms)
  have st: "canBeModified ?pc"
    using stored_active_cart_Some [OF assms] by (simp add: canBeModified_def)
  have empty: "items c = [] \<longrightarrow> submitCart e s userId nts = (fail 400 CannotSubmitEmpty, s)"
    by (simp add: submitCart_def active)
  have valid: "\<exists>s'. submitCart e s userId nts =
                     (ok (Some CartSubmitted) (getUserActiveCart s' userId), s') \<and>
                   findById s' (c_id c) =
                     Some (pre_save ((depopulate c)
                       \<lparr> status := Pending, c_notes := Some nts, submitted_at := Some (now e) \<rparr>))"
    if ne: "items c \<noteq> []" and all: "\<forall>item \<in> set (items c). line_purchasable s (now e) item"
  proof -
    have chk: "submit_check e s (items ?pc) = None"
      using all by (simp add: submit_check_populated)
    obtain s' cart' where sv:
      "save s (?pc \<lparr> status := Pending, c_notes := Some nts, submitted_at := Some (now e) \<rparr>) = (s', cart')"
      by (cases "save s (?pc \<lparr> status := Pending, c_notes := Some nts, submitted_at := Some (now e) \<rparr>)")
    have res: "submitCart e s userId nts = (ok (Some CartSubmitted) (getUserActiveCart s' userId), s')"
      using ne chk st sv by (simp add: submitCart_def active submitForApproval_def)
    from save_stored(1,2) [OF sv]
    have "findById s' (c_id c) =
            Some (pre_save ((depopulate c)
              \<lparr> status := Pending, c_notes := Some nts, submitted_at := Some (now e) \<rparr>))"
      by (simp add: depopulate_populate_update)
    with res show ?thesis by blast
  qed
  from empty valid show ?thesis by blast
qed

theorem submitCart_amended_witness:
  "stored_active_cart (ex_db (ex_cart []) tea) 42 = Some (ex_cart [])
   \<and> submitCart ex_env (ex_db (ex_cart []) tea) 42 ''please''
         = (fail 400 CannotSubmitEmpty, ex_db (ex_cart []) tea)
   \<and> stored_active_cart (ex_db (ex_cart [tea_line 3]) tea) 42 = Some (ex_cart [tea_line 3])
   \<and> line_purchasable (ex_db (ex_cart [tea_line 3]) tea) (now ex_env) (tea_line 3)
   \<and> findById (snd (submitCart ex_env (ex_db (ex_cart [tea_line 3]) tea) 42 ''please'')) 7
         = Some ((ex_cart [tea_line 3])
             \<lparr> status := Pending, c_notes := Some ''please'', submitted_at := Some 100 \<rparr>)"
proof -
  have a: "stored_active_cart (ex_db (ex_cart []) tea) 42 = Some (ex_cart [])"
    by (simp add: ex_defs cart_defs)
  have b: "stored_active_cart (ex_db (ex_cart [tea_line 3]) tea) 42 = Some (ex_cart [tea_line 3])"
    by (simp add: ex_defs cart_defs)
  have p: "line_purchasable (ex_db (ex_cart [tea_line 3]) tea) (now ex_env) (tea_line 3)"
    by (simp add: ex_defs cart_defs)
  have e: "items (ex_cart []) = []" and ne: "items (ex_cart [tea_line 3]) = [tea_line 3]"
    by (simp_all add: ex_defs)
  from submitCart_amended [OF a, of ex_env "''please''"] e
  have r1: "submitCart ex_env (ex_db (ex_cart []) tea) 42 ''please''
              = (fail 400 CannotSubmitEmpty, ex_db (ex_cart []) tea)"
    by simp
  from submitCart_amended [OF b, of ex_env "''please''"] ne p
  obtain s' where
    "submitCart ex_env (ex_db (ex_cart [tea_line 3]) tea) 42 ''please''
       = (ok (Some CartSubmitted) (getUserActiveCart s' 42), s')"
    "findById s' (c_id (ex_cart [tea_line 3])) =
       Some (pre_save ((depopulate (ex_cart [tea_line 3]))
         \<lparr> status := Pending, c_notes := Some ''please'', submitted_at := Some (now ex_env) \<rparr>))"
    by auto
  then have r2: "findById (snd (submitCart ex_env (ex_db (ex_cart [tea_line 3]) tea) 42 ''please'')) 7
         = Some ((ex_cart [tea_line 3])
             \<lparr> status := Pending, c_notes := Some ''please'', submitted_at := Some 100 \<rparr>)"
    by (simp add: ex_defs depopulate_def)
  from a r1 b p r2 show ?thesis by blast
qed

theorem submitCart_one_valid_line_counterexample:
  "stored_active_cart
     (ex_db2 (ex_cart [ex_line 1 3, ex_line 2 1]) (Some tea) (Some (tea \<lparr> p_is_active := False \<rparr>))) 42
     = Some (ex_cart [ex_line 1 3, ex_line 2 1])
   \<and> line_purchasable
       (ex_db2 (ex_cart [ex_line 1 3, ex_line 2 1]) (Some tea) (Some (tea \<lparr> p_is_active := False \<rparr>)))
       (now ex_env) (ex_line 1 3)
   \<and> submitCart ex_env
       (ex_db2 (ex_cart [ex_line 1 3, ex_line 2 1]) (Some tea) (Some (tea \<lparr> p_is_active := False \<rparr>)))
       42 ''please''
     = (fail 400 NoLongerAvailable,
        ex_db2 (ex_cart [ex_line 1 3, ex_line 2 1]) (Some tea) (Some (tea \<lparr> p_is_active := False \<rparr>)))"
  by (simp add: submitCart_def ex_defs cart_defs)

subsection \<open>Updating a line\<close>

text \<open>
  For a user with an active cart in which every line refers to a product that still
  exists, and a product that exists and has no line in that cart: updating that
  product's line to a positive quantity within the stock reports success and leaves the
  stored lines as they were; no line is created and none is altered.
\<close>

lemma updateCartItem_absent_unchanged:
  assumes "stored_active_cart s userId = Some c"
      and "products s productId = Some p" and "0 < qty" and "qty \<le> p_quantity p"
      and "\<forall>item \<in> set (items c). ref_id (product_id item) \<noteq> productId"
      and "\<forall>item \<in> set (items c). products s (ref_id (product_id item)) \<noteq> None"
  shows "\<exists>s' c'. updateCartItem s userId productId qty =
                    (ok (Some ItemUpdated) (getUserActiveCart s' userId), s') \<and>
                  findById s' (c_id c) = Some c' \<and> items c' = map stored_line (items c)"
proof -
  let ?pc = "populate active_cart_fields (products s) c"
  have active: "getUserActiveCart s userId = Some ?pc"
    by (simp add: getUserActiveCart_stored assms(1))
  have st: "canBeModified ?pc"
    using stored_active_cart_Some [OF assms(1)] by (simp add: canBeModified_def)
  have idx: "findIndex (items ?pc) productId = Inr None"
    using findIndex_from_populated [OF assms(6)] by (simp add: findIndex_def)
  obtain s' cart' where sv: "save s ?pc = (s', cart')"
    by (cases "save s ?pc")
  have res: "updateCartItem s userId productId qty =
               (ok (Some ItemUpdated) (getUserActiveCart s' userId), s')"
    using assms(2-4) st idx sv by (simp add: updateCartItem_def active updateItemQuantity_def)
  from save_stored(1,2) [OF sv]
  have "findById s' (c_id c) = Some (depopulate (pre_save ?pc))" by simp
  moreover have "items (depopulate (pre_save ?pc)) = map stored_line (items c)"
    by (simp add: comp_def)
  ultimately show ?thesis using res by blast
qed

lemma updateCartItem_absent_unchanged_example:
  "stored_active_cart (ex_db2 (ex_cart [ex_line 2 1]) (Some tea) (Some tea)) 42
     = Some (ex_cart [ex_line 2 1])
   \<and> success (fst (updateCartItem (ex_db2 (ex_cart [ex_line 2 1]) (Some tea) (Some tea)) 42 1 2))
   \<and> map_option items
        (findById (snd (updateCartItem (ex_db2 (ex_cart [ex_line 2 1]) (Some tea) (Some tea)) 42 1 2)) 7)
       = Some [ex_line 2 1]"
proof -
  let ?D = "ex_db2 (ex_cart [ex_line 2 1]) (Some tea) (Some tea)"
  have a: "stored_active_cart ?D 42 = Some (ex_cart [ex_line 2 1])"
    by (simp add: ex_defs cart_defs)
  have b: "products ?D 1 = Some tea" by (simp add: ex_defs)
  have c: "(0::int) < 2" "2 \<le> p_quantity tea" by (simp_all add: ex_defs)
  have d: "\<forall>item \<in> set (items (ex_cart [ex_line 2 1])). ref_id (product_id item) \<noteq> 1"
    by (simp add: ex_defs)
  have e: "\<forall>item \<in> set (items (ex_cart [ex_line 2 1])).
             products ?D (ref_id (product_id item)) \<noteq> None"
    by (simp add: ex_defs)
  from updateCartItem_absent_unchanged [OF a b c d e]
  obtain s' c' where
    "updateCartItem ?D 42 1 2 = (ok (Some ItemUpdated) (getUserActiveCart s' 42), s')"
    "findById s' (c_id (ex_cart [ex_line 2 1])) = Some c'"
    "items c' = map stored_line (items (ex_cart [ex_line 2 1]))"
    by blast
  then have "success (fst (updateCartItem ?D 42 1 2))"
    and "map_option items (findById (snd (updateCartItem ?D 42 1 2)) 7) = Some [ex_line 2 1]"
    by (simp_all add: ok_def ex_defs stored_line_def)
  with a show ?thesis by blast
qed

text \<open>
  C10, evaluated. The user's active cart holds one line, of a product (2) that has since
  been deleted. Product 1 exists with 5 in stock and has no line in the cart. Updating
  the line of product 1 to quantity 2 is answered with status 500; nothing is written.
\<close>

theorem updateCartItem_after_deleted_line:
  "stored_active_cart (ex_db2 (ex_cart [ex_line 2 1]) (Some tea) None) 42
     = Some (ex_cart [ex_line 2 1])
   \<and> products (ex_db2 (ex_cart [ex_line 2 1]) (Some tea) None) 1 = Some tea
   \<and> (0::int) < 2 \<and> 2 \<le> p_quantity tea
   \<and> ref_id (product_id (ex_line 2 1)) \<noteq> 1
   \<and> updateCartItem (ex_db2 (ex_cart [ex_line 2 1]) (Some tea) None) 42 1 2
       = (fail 500 Failed, ex_db2 (ex_cart [ex_line 2 1]) (Some tea) None)"
  by (simp add: updateCartItem_def updateItemQuantity_def findIndex_def ex_defs cart_defs)

subsection \<open>Adding to a cart\<close>

text \<open>
  On a stored cart, whose references are ids, \<open>addItem\<close> finds the line of a product
  and adds to its quantity, keeping the price it holds.
\<close>

lemma addItem_merges_on_ids:
  "addItem ex_env (ex_db (ex_cart [tea_line 3]) tea) (ex_cart [tea_line 3]) 1 2 (Finite 12)
     = Inr (save (ex_db (ex_cart [tea_line 3]) tea) (ex_cart [tea_line 5]))"
  by (simp add: addItem_def findIndex_def ex_defs save_def)

text \<open>
  Through the controller the cart is the populated one, where no line's reference prints
  as an id: the search finds nothing, the quantity already in the cart counts as 0, and
  the request is appended as a new line whenever it alone is within the stock.
\<close>

lemma addToCart_appends:
  assumes "stored_active_cart s userId = Some c"
      and "\<forall>item \<in> set (items c). products s (ref_id (product_id item)) \<noteq> None"
      and "products s productId = Some p" and "p_is_active p" and "\<not> p_is_expired (now e) p"
      and "qty \<le> p_quantity p"
  shows "\<exists>s' c'. addToCart e s userId productId qty =
                    (ok (Some ItemAdded) (getUserActiveCart s' userId), s') \<and>
                  findById s' (c_id c) = Some c' \<and>
                  items c' = map stored_line (items c) @
                    [\<lparr> product_id = Ref productId, quantity = qty,
                       price_at_time = p_price p, added_at = now e \<rparr>]"
proof -
  let ?pc = "populate active_cart_fields (products s) c"
  let ?new = "\<lparr> product_id = Ref productId, quantity = qty,
                 price_at_time = p_price p, added_at = now e \<rparr>"
  have active: "getUserActiveCart s userId = Some ?pc"
    by (simp add: getUserActiveCart_stored assms(1))
  have fnd: "find_item (items ?pc) productId = Inr None"
    using find_item_populated [OF assms(2)] by simp
  have idx: "findIndex (items ?pc) productId = Inr None"
    using findIndex_from_populated [OF assms(2)] by (simp add: findIndex_def)
  obtain s' cart' where sv: "save s (?pc \<lparr> items := items ?pc @ [?new] \<rparr>) = (s', cart')"
    by (cases "save s (?pc \<lparr> items := items ?pc @ [?new] \<rparr>)")
  have res: "addToCart e s userId productId qty =
               (ok (Some ItemAdded) (getUserActiveCart s' userId), s')"
    using assms(3-6) fnd idx sv by (simp add: addToCart_def active addItem_def)
  from save_stored(1,2) [OF sv]
  have "findById s' (c_id c) = Some (depopulate (pre_save (?pc \<lparr> items := items ?pc @ [?new] \<rparr>)))"
    by simp
  moreover have "stored_line ?new = ?new"
    by (simp add: stored_line_def)
  then have "items (depopulate (pre_save (?pc \<lparr> items := items ?pc @ [?new] \<rparr>)))
                   = map stored_line (items c) @ [?new]"
    by (simp add: comp_def)
  ultimately show ?thesis using res by blast
qed

text \<open>
  A cart whose first line refers to a product that was deleted: the search for a line
  calls \<open>toString()\<close> on \<open>null\<close>, and a request to add another product, within or
  beyond its stock, is answered with status 500.
\<close>

lemma addToCart_after_deleted_line:
  "stored_active_cart (ex_db2 (ex_cart [ex_line 2 1, ex_line 1 3]) (Some tea) None) 42
     = Some (ex_cart [ex_line 2 1, ex_line 1 3])
   \<and> addToCart ex_env (ex_db2 (ex_cart [ex_line 2 1, ex_line 1 3]) (Some tea) None) 42 1 4
       = (fail 500 Failed, ex_db2 (ex_cart [ex_line 2 1, ex_line 1 3]) (Some tea) None)
   \<and> addToCart ex_env (ex_db2 (ex_cart [ex_line 2 1, ex_line 1 3]) (Some tea) None) 42 1 1
       = (fail 500 Failed, ex_db2 (ex_cart [ex_line 2 1, ex_line 1 3]) (Some tea) None)"
  by (simp add: addToCart_def ex_defs cart_defs)

text \<open>
  C3, evaluated. Stock 5, 3 units of the product in the user's active cart, a request
  to add 4: the request is accepted and the cart now holds two lines of the product, 3
  and 4 units, \<open>total_items\<close> 7.
\<close>

theorem addToCart_beyond_stock_accepted:
  "stored_active_cart (ex_db (ex_cart [tea_line 3]) tea) 42 = Some (ex_cart [tea_line 3])
   \<and> p_quantity tea = 5
   \<and> success (fst (addToCart ex_env (ex_db (ex_cart [tea_line 3]) tea) 42 1 4))
   \<and> carts (snd (addToCart ex_env (ex_db (ex_cart [tea_line 3]) tea) 42 1 4))
       = [ex_cart [tea_line 3,
            \<lparr> product_id = Ref 1, quantity = 4, price_at_time = Finite 10, added_at = 100 \<rparr>]]
   \<and> total_items (ex_cart [tea_line 3,
            \<lparr> product_id = Ref 1, quantity = 4, price_at_time = Finite 10, added_at = 100 \<rparr>]) = 7"
  by (simp add: addToCart_def addItem_def findIndex_def ex_defs cart_defs)

text \<open>
  C7, evaluated. The cart holds 1 unit of the product at the captured price 10; the
  product now costs 12. Adding 1 more does not add to the existing line: a second line
  of the same product is appended, at price 12.
\<close>

theorem addToCart_same_product_new_line:
  "stored_active_cart (ex_db (ex_cart [tea_line 1]) (tea \<lparr> p_price := Finite 12 \<rparr>)) 42
     = Some (ex_cart [tea_line 1])
   \<and> success (fst (addToCart ex_env (ex_db (ex_cart [tea_line 1]) (tea \<lparr> p_price := Finite 12 \<rparr>)) 42 1 1))
   \<and> map_option items
        (findById (snd (addToCart ex_env (ex_db (ex_cart [tea_line 1]) (tea \<lparr> p_price := Finite 12 \<rparr>)) 42 1 1)) 7)
       = Some [\<lparr> product_id = Ref 1, quantity = 1, price_at_time = Finite 10, added_at = 0 \<rparr>,
               \<lparr> product_id = Ref 1, quantity = 1, price_at_time = Finite 12, added_at = 100 \<rparr>]"
  by (simp add: addToCart_def addItem_def findIndex_def ex_defs cart_defs)

subsection \<open>Captured prices\<close>

lemma findIndex_from_bounds:
  "findIndex_from k its productId = Inr (Some i) \<Longrightarrow> k \<le> i \<and> i < k + length its"
  by (induction its arbitrary: k) (fastforce split: sum.splits if_splits)+

lemma filter_other_subset:
  "filter_other its productId = Inr keep \<Longrightarrow> set keep \<subseteq> set its"
  by (induction its arbitrary: keep) (auto split: sum.splits if_splits)

text \<open>
  No method of the model assigns \<open>price_at_time\<close> of a line that exists: after a call,
  every line of the cart has the reference, the price and the time of a line that was
  there before, or is the line that \<open>addItem\<close> pushed, at the price it was given.
\<close>

lemma methods_keep_prices:
  assumes "call_method e s c m = Inr (s', c')" and "item' \<in> set (items c')"
  shows "(\<exists>item \<in> set (items c).
            product_id item' = product_id item \<and> price_at_time item' = price_at_time item \<and>
            added_at item' = added_at item) \<or>
         (\<exists>productId qty priceAtTime.
            m = AddItem productId qty priceAtTime \<and>
            item' = \<lparr> product_id = Ref productId, quantity = qty,
                      price_at_time = priceAtTime, added_at = now e \<rparr>)"
proof -
  have upd: "\<exists>item \<in> set xs. product_id x = product_id item \<and>
               price_at_time x = price_at_time item \<and> added_at x = added_at item"
    if "x \<in> set (xs[i := (xs ! i) \<lparr> quantity := q \<rparr>])" and "i < length xs"
    for x :: cart_item and xs i q
    using that by (auto simp: set_conv_nth nth_list_update split: if_splits)
  have spl: "set (splice1 i xs) \<subseteq> set xs" for i and xs :: "cart_item list"
    by (auto simp: splice1_def dest: in_set_takeD in_set_dropD)
  show ?thesis
  proof (cases m)
    case (AddItem productId qty priceAtTime)
    show ?thesis
    proof (cases "findIndex (items c) productId")
      case (Inl err)
      with assms AddItem show ?thesis by (simp add: addItem_def)
    next
      case (Inr r)
      show ?thesis
      proof (cases r)
        case None
        with assms AddItem Inr show ?thesis
          by (auto simp: addItem_def save_def Let_def)
      next
        case (Some i)
        with Inr have "i < length (items c)"
          using findIndex_from_bounds [of 0 "items c" productId i] by (simp add: findIndex_def)
        with assms AddItem Inr Some upd [of item' "items c" i] show ?thesis
          by (auto simp: addItem_def save_def Let_def)
      qed
    qed
  next
    case (UpdateItemQuantity productId newQuantity)
    show ?thesis
    proof (cases "findIndex (items c) productId")
      case (Inl err)
      with assms UpdateItemQuantity show ?thesis by (simp add: updateItemQuantity_def)
    next
      case (Inr r)
      show ?thesis
      proof (cases r)
        case None
        with assms UpdateItemQuantity Inr show ?thesis
          by (auto simp: updateItemQuantity_def save_def Let_def)
      next
        case (Some i)
        with Inr have "i < length (items c)"
          using findIndex_from_bounds [of 0 "items c" productId i] by (simp add: findIndex_def)
        with assms UpdateItemQuantity Inr Some upd [of item' "items c" i] spl [of i "items c"]
        show ?thesis
          by (auto simp: updateItemQuantity_def save_def Let_def split: if_splits)
      qed
    qed
  next
    case (RemoveItem productId)
    with assms filter_other_subset [of "items c" productId] show ?thesis
      by (auto simp: removeItem_def save_def Let_def split: sum.splits)
  qed (use assms in \<open>auto simp: clearCart_m_def submitForApproval_def approveCart_m_def
          rejectCart_m_def cancelCart_m_def save_def Let_def\<close>)
qed

subsection \<open>Approving a cart\<close>

lemma approveCart_not_pending:
  assumes "findById s cartId = Some c" and "status c \<noteq> Pending"
  shows "approveCart e s adminId cartId adminNotes = (fail 400 CannotBeProcessed, s)"
  using assms by (simp add: approveCart_def canBeProcessed_def)

text \<open>
  The documents that \<open>approveCart\<close> populates carry \<open>name\<close>, \<open>price\<close> and
  \<open>quantity\<close> only, so \<open>product.is_active\<close> is undefined on every line and the first
  line already fails the check.
\<close>

lemma approve_check_populated:
  "its \<noteq> [] \<Longrightarrow>
     approve_check e (map (populate_item approve_fields prods) its) = Some NoLongerAvailable"
  by (cases its)
     (auto simp: populate_item_def select_fields_def approve_fields_def truthy_def
        split: option.splits)

lemma approveCart_with_lines_refused:
  assumes "findById s cartId = Some c" and "status c = Pending" and "items c \<noteq> []"
  shows "approveCart e s adminId cartId adminNotes = (fail 400 NoLongerAvailable, s)"
  using assms by (simp add: approveCart_def canBeProcessed_def approve_check_populated)

text \<open>
  C5, evaluated. A pending cart with one line of 3 units; the product is active, not
  expired and has 5 in stock. The approval is refused with status 400 and the cart stays
  pending.
\<close>

theorem approveCart_purchasable_refused:
  "findById (ex_db ((ex_cart [tea_line 3]) \<lparr> status := Pending \<rparr>) tea) 7
     = Some ((ex_cart [tea_line 3]) \<lparr> status := Pending \<rparr>)
   \<and> line_purchasable (ex_db ((ex_cart [tea_line 3]) \<lparr> status := Pending \<rparr>) tea)
        (now ex_env) (tea_line 3)
   \<and> approveCart ex_env (ex_db ((ex_cart [tea_line 3]) \<lparr> status := Pending \<rparr>) tea) 99 7 ''ok''
       = (fail 400 NoLongerAvailable, ex_db ((ex_cart [tea_line 3]) \<lparr> status := Pending \<rparr>) tea)"
  by (simp add: approveCart_def ex_defs cart_defs)

subsection \<open>Group membership\<close>

text \<open>The count is right after a join and after an approval.\<close>

lemma joinGroup_members_count:
  assumes "joinGroup t groups groupId userId = ((200, m), groups')"
      and "groups groupId = Some g" and "members_count g = approved_count (joined_users g)"
  shows "\<exists>g'. groups' groupId = Some g' \<and> members_count g' = approved_count (joined_users g')"
  using assms
  by (auto simp: joinGroup_def Let_def approved_count_def split: if_splits option.splits)

lemma approveUserJoin_members_count:
  assumes "approveUserJoin groups currentUserId groupId userId = ((200, m), groups')"
  shows "\<exists>g'. groups' groupId = Some g' \<and> members_count g' = approved_count (joined_users g')"
  using assms
  by (auto simp: approveUserJoin_def Let_def split: if_splits option.splits)

text \<open>
  C2, evaluated. A group whose only member (user 2) is approved, \<open>members_count\<close> 1.
  The group admin (user 9) rejects user 2: the request succeeds, no join record is
  approved any more, and \<open>members_count\<close> is still 1.
\<close>

theorem rejectUserJoin_leaves_members_count:
  "members_count ex_group = approved_count (joined_users ex_group)
   \<and> fst (rejectUserJoin ex_groups 9 1 2) = (200, UserRejected)
   \<and> map_option (\<lambda>g. approved_count (joined_users g)) (snd (rejectUserJoin ex_groups 9 1 2) 1) = Some 0
   \<and> map_option members_count (snd (rejectUserJoin ex_groups 9 1 2) 1) = Some 1"
  by (simp add: rejectUserJoin_def ex_groups_def ex_group_def approved_count_def)

subsection \<open>Primary image\<close>

lemma primary_images_static:
  assumes "imgs imageId = Some im" and "i_product_id im = productId"
  shows "primary_images (fst (setPrimaryImage_static imgs imageId productId)) productId = {imageId}"
  using assms
  by (auto simp: primary_images_def setPrimaryImage_static_def make_primary_def clear_primary_def
        split: option.splits if_splits)

text \<open>
  C8. For a product and an image of that product, after \<open>setPrimaryImage\<close> of the
  model the images of the product that are flagged primary are exactly the designated
  one, whatever the flags were before; and whenever the controller operation succeeds,
  the same holds of the collection it leaves.
\<close>

theorem setPrimaryImage_exactly_one:
  "(imgs imageId = Some im \<and> i_product_id im = productId \<longrightarrow>
      primary_images (fst (setPrimaryImage_static imgs imageId productId)) productId = {imageId}) \<and>
   (setPrimaryImage prods imgs productId imageId = ((200, m), imgs') \<longrightarrow>
      primary_images imgs' productId = {imageId})"
proof (intro conjI impI)
  assume "imgs imageId = Some im \<and> i_product_id im = productId"
  then show "primary_images (fst (setPrimaryImage_static imgs imageId productId)) productId = {imageId}"
    using primary_images_static by blast
next
  assume a: "setPrimaryImage prods imgs productId imageId = ((200, m), imgs')"
  then obtain im' where "imgs imageId = Some im'" "i_product_id im' = productId"
    and "imgs' = fst (setPrimaryImage_static imgs imageId productId)"
    by (auto simp: setPrimaryImage_def split: option.splits if_splits)
  then show "primary_images imgs' productId = {imageId}"
    using primary_images_static by blast
qed

theorem setPrimaryImage_exactly_one_witness:
  "ex_images 12 = Some (ex_image False) \<and> i_product_id (ex_image False) = 1
   \<and> primary_images ex_images 1 = {10, 11}
   \<and> primary_images (fst (setPrimaryImage_static ex_images 12 1)) 1 = {12}
   \<and> setPrimaryImage (\<lambda>i. if i = 1 then Some tea else None) ex_images 1 12
       = ((200, PrimaryImageSet), fst (setPrimaryImage_static ex_images 12 1))
   \<and> primary_images (snd (setPrimaryImage (\<lambda>i. if i = 1 then Some tea else None) ex_images 1 12)) 1
       = {12}"
proof -
  have a: "ex_images 12 = Some (ex_image False) \<and> i_product_id (ex_image False) = 1"
    by (simp add: ex_images_def ex_image_def)
  have b: "setPrimaryImage (\<lambda>i. if i = 1 then Some tea else None) ex_images 1 12
       = ((200, PrimaryImageSet), fst (setPrimaryImage_static ex_images 12 1))"
    by (simp add: setPrimaryImage_def ex_images_def ex_image_def)
  have c: "primary_images ex_images 1 = {10, 11}"
    by (auto simp: primary_images_def ex_images_def ex_image_def split: if_splits)
  from setPrimaryImage_exactly_one
         [of ex_images 12 "ex_image False" 1 "\<lambda>i. if i = 1 then Some tea else None"
             PrimaryImageSet "fst (setPrimaryImage_static ex_images 12 1)"] a b c
  show ?thesis by simp
qed

subsection \<open>Slugs\<close>

lemma of_char_less_256: "(of_char c :: nat) < 256"
  by (cases c) (simp add: of_char_def)

lemma toLowerCase_no_upper: "c \<in> set (toLowerCase str) \<Longrightarrow> \<not> is_upper c"
  by (auto simp: toLowerCase_def is_upper_def Let_def)

lemma set_spaces_to_hyphens:
  "c \<in> set (spaces_to_hyphens str) \<Longrightarrow> (c \<in> set str \<and> \<not> is_space c) \<or> c = CHR ''-''"
  by (induction str rule: spaces_to_hyphens.induct)
     (auto split: if_splits dest: set_dropWhileD)

lemma set_trim: "c \<in> set (trim str) \<Longrightarrow> c \<in> set str"
  by (auto simp: trim_def dest!: set_dropWhileD)

text \<open>The slug that the hooks derive from a name is lowercase and URL-safe.\<close>

lemma slugify_chars: "c \<in> set (slugify name) \<Longrightarrow> slug_char c"
proof -
  assume "c \<in> set (slugify name)"
  then have "c \<in> set (spaces_to_hyphens (remove_special (toLowerCase name)))"
    by (simp add: slugify_def set_trim)
  then consider "c \<in> set (remove_special (toLowerCase name))" "\<not> is_space c" | "c = CHR ''-''"
    using set_spaces_to_hyphens by blast
  then show "slug_char c"
  proof cases
    case 1
    then show ?thesis
      using toLowerCase_no_upper [of c name] by (auto simp: remove_special_def slug_char_def)
  next
    case 2
    then show ?thesis by (simp add: slug_char_def)
  qed
qed

lemma read_show_nat: "read_nat (show_nat n) = n"
proof (induction n rule: show_nat.induct)
  case (1 n)
  show ?case
  proof (cases "n < 10")
    case True
    then show ?thesis
      by (subst show_nat.simps) (simp add: read_nat_def)
  next
    case False
    have "of_char (char_of (48 + n mod 10) :: char) = 48 + n mod 10"
      by (simp add: of_char_of [where ?'a = nat])
    with False 1 show ?thesis
      by (subst show_nat.simps) (simp add: read_nat_def)
  qed
qed

lemma show_nat_inject: "show_nat m = show_nat n \<Longrightarrow> m = n"
  by (metis read_show_nat)

lemma show_nat_digits: "c \<in> set (show_nat n) \<Longrightarrow> is_digit c"
proof (induction n arbitrary: c rule: show_nat.induct)
  case (1 n)
  have d: "is_digit (char_of (48 + k))" if "k < 10" for k :: nat
    using that by (simp add: is_digit_def of_char_of [where ?'a = nat])
  show ?case
  proof (cases "n < 10")
    case True
    with 1(2) d [of n] show ?thesis
      by (subst (asm) show_nat.simps) simp
  next
    case False
    with 1 d [of "n mod 10"] show ?thesis
      by (subst (asm) (2) show_nat.simps) auto
  qed
qed

lemma slug_loop_free:
  "slug_loop fuel coll self baseSlug slug counter = Some r \<Longrightarrow> \<not> slug_taken coll self r"
  by (induction fuel arbitrary: slug counter) (auto split: if_splits)

lemma slug_loop_form:
  "slug_loop fuel coll self baseSlug slug counter = Some r \<Longrightarrow>
     r = slug \<or> (\<exists>k \<ge> counter. r = baseSlug @ ''-'' @ show_nat k)"
proof (induction fuel arbitrary: slug counter)
  case 0
  then show ?case by simp
next
  case (Suc fuel)
  show ?case
  proof (cases "slug_taken coll self slug")
    case True
    with Suc.prems
    have "slug_loop fuel coll self baseSlug (baseSlug @ ''-'' @ show_nat counter) (counter + 1) = Some r"
      by simp
    from Suc.IH [OF this] show ?thesis
      by (metis Suc_leD add.commute le_refl plus_1_eq_Suc)
  next
    case False
    with Suc.prems show ?thesis by simp
  qed
qed

lemma slug_taken_in: "slug_taken coll self slug \<Longrightarrow> slug \<in> e_slug ` set coll"
  unfolding slug_taken_def find_None_iff by force

lemma taken_counters_finite:
  "finite {k. slug_taken coll self (baseSlug @ ''-'' @ show_nat k)}"
proof -
  let ?A = "{k. slug_taken coll self (baseSlug @ ''-'' @ show_nat k)}"
  have "(\<lambda>k. baseSlug @ ''-'' @ show_nat k) ` ?A \<subseteq> e_slug ` set coll"
    by (auto dest: slug_taken_in)
  then have "finite ((\<lambda>k. baseSlug @ ''-'' @ show_nat k) ` ?A)"
    by (rule finite_subset) simp
  moreover have "inj_on (\<lambda>k. baseSlug @ ''-'' @ show_nat k) ?A"
    by (auto simp: inj_on_def dest: show_nat_inject)
  ultimately show ?thesis by (rule finite_imageD)
qed

lemma taken_counters_card:
  "card {k. slug_taken coll self (baseSlug @ ''-'' @ show_nat k)} \<le> length coll"
proof -
  let ?A = "{k. slug_taken coll self (baseSlug @ ''-'' @ show_nat k)}"
  have sub: "(\<lambda>k. baseSlug @ ''-'' @ show_nat k) ` ?A \<subseteq> e_slug ` set coll"
    by (auto dest: slug_taken_in)
  have "inj_on (\<lambda>k. baseSlug @ ''-'' @ show_nat k) ?A"
    by (auto simp: inj_on_def dest: show_nat_inject)
  then have "card ?A = card ((\<lambda>k. baseSlug @ ''-'' @ show_nat k) ` ?A)"
    by (simp add: card_image)
  also have "\<dots> \<le> card (e_slug ` set coll)"
    using sub by (simp add: card_mono)
  also have "\<dots> \<le> length coll"
    by (metis card_image_le card_length le_trans List.finite_set)
  finally show ?thesis .
qed

lemma slug_loop_returns:
  assumes "card {k. counter \<le> k \<and> slug_taken coll self (baseSlug @ ''-'' @ show_nat k)} + 1 < fuel"
  shows "slug_loop fuel coll self baseSlug slug counter \<noteq> None"
  using assms
proof (induction fuel arbitrary: slug counter)
  case 0
  then show ?case by simp
next
  case (Suc fuel)
  let ?A = "\<lambda>c. {k. c \<le> k \<and> slug_taken coll self (baseSlug @ ''-'' @ show_nat k)}"
  let ?next = "baseSlug @ ''-'' @ show_nat counter"
  show ?case
  proof (cases "slug_taken coll self slug")
    case False
    then show ?thesis by simp
  next
    case True
    show ?thesis
    proof (cases "slug_taken coll self ?next")
      case False
      from Suc.prems obtain f where "fuel = Suc f" by (cases fuel) auto
      with True False show ?thesis by simp
    next
      case taken: True
      have fin: "finite (?A (Suc counter))"
        by (rule finite_subset [OF _ taken_counters_finite [of coll self baseSlug]]) auto
      have "?A counter = insert counter (?A (Suc counter))"
        using taken by (auto simp: le_Suc_eq)
      moreover have "counter \<notin> ?A (Suc counter)" by simp
      ultimately have "card (?A counter) = Suc (card (?A (Suc counter)))"
        using fin by simp
      with Suc.prems have "card (?A (Suc counter)) + 1 < fuel" by simp
      from Suc.IH [OF this] True show ?thesis by simp
    qed
  qed
qed

text \<open>
  The hook of Product, Group, Service and Blog: given as many iterations as the
  collection has documents, and two more, the loop ends; the slug it sets is the base
  slug or the base slug with a numeric suffix, no other document of the collection has
  it, and it is lowercase and URL-safe.
\<close>

lemma product_pre_save_unique:
  "\<exists>p'. product_pre_save (length coll + 2) coll p = Some p' \<and>
         \<not> slug_taken coll (e_id p) (e_slug p') \<and>
         (e_slug p' = slugify (e_name p) \<or>
          (\<exists>k \<ge> 1. e_slug p' = slugify (e_name p) @ ''-'' @ show_nat k)) \<and>
         (\<forall>c \<in> set (e_slug p'). slug_char c)"
proof -
  let ?b = "slugify (e_name p)"
  have "card {k. 1 \<le> k \<and> slug_taken coll (e_id p) (?b @ ''-'' @ show_nat k)}
          \<le> card {k. slug_taken coll (e_id p) (?b @ ''-'' @ show_nat k)}"
    by (rule card_mono [OF taken_counters_finite]) auto
  with taken_counters_card [of coll "e_id p" ?b]
  have "card {k. 1 \<le> k \<and> slug_taken coll (e_id p) (?b @ ''-'' @ show_nat k)} + 1 < length coll + 2"
    by simp
  from slug_loop_returns [OF this]
  obtain r where r: "slug_loop (length coll + 2) coll (e_id p) ?b ?b 1 = Some r"
    by blast
  from slug_loop_form [OF r]
  have form: "r = ?b \<or> (\<exists>k \<ge> 1. r = ?b @ ''-'' @ show_nat k)" .
  have "\<forall>c \<in> set ?b. slug_char c"
    using slugify_chars by blast
  moreover have "\<forall>c \<in> set (show_nat k). slug_char c" for k
    using show_nat_digits by (auto simp: slug_char_def)
  moreover have "slug_char CHR ''-''"
    by (simp add: slug_char_def)
  ultimately have "\<forall>c \<in> set r. slug_char c"
    using form by auto
  with r form slug_loop_free [OF r] show ?thesis
    by (simp add: product_pre_save_def)
qed

text \<open>
  C9, evaluated. The collection holds the category "Home & Garden" with slug
  \<open>home-garden\<close>; a category "Home Garden" is created. The Category hook derives the
  same slug \<open>home-garden\<close> and appends nothing, and the save is refused by the unique
  index. The hook of the other four models, on the same data, sets \<open>home-garden-1\<close>.
\<close>

theorem category_slug_collision_no_suffix:
  "e_name home_and_garden \<noteq> e_name home_garden
   \<and> e_slug (category_pre_save home_garden) = e_slug home_and_garden
   \<and> category_save [home_and_garden] home_garden = Inl DuplicateKey
   \<and> product_pre_save 3 [home_and_garden] home_garden
       = Some (home_garden \<lparr> e_slug := ''home-garden-1'' \<rparr>)"
  by code_simp

end
